theory Spec2Isabelle
  imports Main "HOL-Library.Word" "HOL-Library.Sublist"
begin

section \<open>Python values, exceptions and string helpers\<close>

text \<open>
  A shallow embedding of \<^verbatim>\<open>access_audio.py\<close>: the \<^verbatim>\<open>ServerManager\<close> class and the two
  proxy routes \<^verbatim>\<open>/audio/...\<close> and \<^verbatim>\<open>/list-audio/...\<close>. Everything outside the file (the
  network, the file system, socket binding, thread liveness) is an explicit environment.
\<close>

type_synonym bytes = "8 word list"

text \<open>
  What \<^verbatim>\<open>response.json()\<close> can return. An object is the association list of the parsed
  dict, read with \<open>map_of\<close>. Numbers are opaque to the program (it never looks inside
  one): an integer, or a float kept as its literal.
\<close>

datatype json =
    JNull
  | JBool bool
  | JNum int
  | JFloat string
  | JStr string
  | JArr "json list"
  | JObj "(string \<times> json) list"

text \<open>The exceptions that the modelled code can see, each with its message.\<close>

datatype exn =
    OSError string
  | OverflowError string
  | RequestException string
  | HTTPException nat string
  | AttributeError string

text \<open>\<^verbatim>\<open>str(n)\<close> for a number: its decimal digits.\<close>

definition digit_char :: "nat \<Rightarrow> char" where
  "digit_char d = ''0123456789'' ! (d mod 10)"

fun str_nat :: "nat \<Rightarrow> string" where
  "str_nat n =
     (if n < 10 then [digit_char n]
      else str_nat (n div 10) @ [digit_char (n mod 10)])"

declare str_nat.simps [simp del]

definition str_int :: "int \<Rightarrow> string" where
  "str_int i = (if i < 0 then CHR ''-'' # str_nat (nat (- i)) else str_nat (nat i))"

text \<open>
  \<^verbatim>\<open>str(e)\<close>. A requests exception and an \<^verbatim>\<open>OSError\<close> built from one message print that
  message; Starlette's \<^verbatim>\<open>HTTPException.__str__\<close> prints \<^verbatim>\<open>f"{status_code}: {detail}"\<close>.
\<close>

fun str_exn :: "exn \<Rightarrow> string" where
  "str_exn (OSError msg) = msg"
| "str_exn (OverflowError msg) = msg"
| "str_exn (RequestException msg) = msg"
| "str_exn (HTTPException code detail) = str_nat code @ '': '' @ detail"
| "str_exn (AttributeError msg) = msg"

text \<open>\<^verbatim>\<open>s.lstrip('/')\<close>\<close>

definition lstrip_slash :: "string \<Rightarrow> string" where
  "lstrip_slash s = dropWhile (\<lambda>c. c = CHR ''/'') s"

text \<open>\<^verbatim>\<open>os.path.basename(p)\<close>: what follows the last slash.\<close>

definition basename :: "string \<Rightarrow> string" where
  "basename p = rev (takeWhile (\<lambda>c. c \<noteq> CHR ''/'') (rev p))"

text \<open>\<^verbatim>\<open>os.path.join(a, b)\<close> (posixpath, two components).\<close>

definition path_join :: "string \<Rightarrow> string \<Rightarrow> string" where
  "path_join a b =
     (if b \<noteq> [] \<and> hd b = CHR ''/'' then b
      else if a = [] \<or> last a = CHR ''/'' then a @ b
      else a @ ''/'' @ b)"

text \<open>
  \<^verbatim>\<open>s.lower()\<close> on the ASCII letters. Strings are byte strings here (UTF-8); Python lowers
  other letters too, but no character outside ASCII lowers to a letter of a supported
  extension, so the suffix test below sees the same answer.
\<close>

definition lower_char :: "char \<Rightarrow> char" where
  "lower_char c =
     (let n = (of_char c :: nat) in if 65 \<le> n \<and> n \<le> 90 then char_of (n + 32) else c)"

definition lower :: "string \<Rightarrow> string" where
  "lower s = map lower_char s"

definition ends_with :: "string \<Rightarrow> string \<Rightarrow> bool" where
  "ends_with s suf = (length suf \<le> length s \<and> drop (length s - length suf) s = suf)"

text \<open>\<^verbatim>\<open>s.endswith(t)\<close> for a tuple \<open>t\<close> of suffixes.\<close>

definition endswith :: "string \<Rightarrow> string list \<Rightarrow> bool" where
  "endswith s sufs = list_ex (ends_with s) sufs"

section \<open>Configuration\<close>

definition AUDIO_CACHE_DIR :: string where
  "AUDIO_CACHE_DIR = ''audio_cache''"

definition SUPPORTED_FORMATS :: "string list" where
  "SUPPORTED_FORMATS = [''.mp3'', ''.wav'', ''.ogg'', ''.flac'', ''.m4a'']"

text \<open>\<^verbatim>\<open>GITHUB_RAW_BASE_URL.format(...)\<close> and \<^verbatim>\<open>GITHUB_API_BASE_URL.format(...)\<close>\<close>

definition GITHUB_RAW_BASE_URL :: "string \<Rightarrow> string \<Rightarrow> string \<Rightarrow> string \<Rightarrow> string" where
  "GITHUB_RAW_BASE_URL owner repo branch file_path =
     ''https://raw.githubusercontent.com/'' @ owner @ ''/'' @ repo @ ''/'' @ branch @ ''/''
       @ file_path"

definition GITHUB_API_BASE_URL :: "string \<Rightarrow> string \<Rightarrow> string \<Rightarrow> string \<Rightarrow> string" where
  "GITHUB_API_BASE_URL owner repo path branch =
     ''https://api.github.com/repos/'' @ owner @ ''/'' @ repo @ ''/contents/'' @ path
       @ ''?ref='' @ branch"

section \<open>The environment: network, file system, sockets, threads\<close>

text \<open>
  A response of \<^verbatim>\<open>requests.get\<close>: \<open>json_body\<close> is what \<^verbatim>\<open>response.json()\<close> does, the
  decoded value or the decoder's message when the body is not JSON.
\<close>

record http_response =
  status_code :: nat
  reason :: string
  url :: string
  content :: bytes
  json_body :: "string + json"

datatype http_outcome = TransportError string | Response http_response

text \<open>
  \<open>net\<close> answers a GET by URL. \<open>open_error\<close> is the operating system's refusal to open
  a path for writing (its message), if any. \<open>bind_free p\<close>: binding a fresh socket to
  \<open>('localhost', p)\<close> succeeds. \<open>thread_alive t\<close>: \<^verbatim>\<open>is_alive()\<close> of thread \<open>t\<close>.
\<close>

record env =
  net :: "string \<Rightarrow> http_outcome"
  open_error :: "string \<Rightarrow> string option"
  bind_free :: "int \<Rightarrow> bool"
  thread_alive :: "nat \<Rightarrow> bool"

text \<open>
  The mutable world of the proxy routes: the regular files on disk by path, and the log
  of URLs requested from the remote source, oldest first.
\<close>

record world =
  files :: "string \<rightharpoonup> bytes"
  calls :: "string list"

text \<open>\<^verbatim>\<open>requests.get(url)\<close>: any failure to obtain a response is a RequestException.\<close>

definition requests_get :: "env \<Rightarrow> string \<Rightarrow> exn + http_response" where
  "requests_get E u =
     (case net E u of
        TransportError msg \<Rightarrow> Inl (RequestException msg)
      | Response r \<Rightarrow> Inr r)"

text \<open>\<^verbatim>\<open>response.raise_for_status()\<close>: HTTPError for a status in 400..599, nothing else.\<close>

definition raise_for_status :: "http_response \<Rightarrow> exn + unit" where
  "raise_for_status r =
     (if 400 \<le> status_code r \<and> status_code r < 500 then
        Inl (RequestException
          (str_nat (status_code r) @ '' Client Error: '' @ reason r @ '' for url: '' @ url r))
      else if 500 \<le> status_code r \<and> status_code r < 600 then
        Inl (RequestException
          (str_nat (status_code r) @ '' Server Error: '' @ reason r @ '' for url: '' @ url r))
      else Inr ())"

text \<open>\<^verbatim>\<open>response.json()\<close>: requests raises its JSONDecodeError, a RequestException.\<close>

definition response_json :: "http_response \<Rightarrow> exn + json" where
  "response_json r =
     (case json_body r of
        Inl msg \<Rightarrow> Inl (RequestException msg)
      | Inr j \<Rightarrow> Inr j)"

text \<open>
  \<^verbatim>\<open>open(path, 'wb')\<close> and the write that follows, failing as a whole or not at all. The
  operating system's refusal comes first, with its own message. A path whose last
  component is empty, \<^verbatim>\<open>.\<close> or \<^verbatim>\<open>..\<close> names a directory and is never opened for writing:
  where the system gives no other reason it is IsADirectoryError (an OSError).
\<close>

definition open_wb :: "env \<Rightarrow> string \<Rightarrow> exn + unit" where
  "open_wb E p =
     (case open_error E p of
        Some msg \<Rightarrow> Inl (OSError msg)
      | None \<Rightarrow>
          if basename p \<in> {'''', ''.'', ''..''} then
            Inl (OSError (''[Errno 21] Is a directory: '' @ [CHR 0x27] @ p @ [CHR 0x27]))
          else Inr ())"

section \<open>The proxy routes\<close>

text \<open>A route's reply: \<^verbatim>\<open>FileResponse(path)\<close>, or a JSON body with its status code.\<close>

datatype http_reply = FileResponse string | JSONResponse nat json

text \<open>
  \<^verbatim>\<open>download_audio_from_github\<close>: one GET of the raw URL, then the body is written to
  \<^verbatim>\<open>audio_cache/<basename>\<close>. A RequestException becomes \<^verbatim>\<open>HTTPException(404, ...)\<close>; an
  OSError of the write is not caught here.
\<close>

definition download_audio_from_github ::
  "env \<Rightarrow> string \<Rightarrow> string \<Rightarrow> string \<Rightarrow> string \<Rightarrow> world \<Rightarrow> (exn + string) \<times> world" where
  "download_audio_from_github E owner repo branch file_path w =
     (let audio_url = GITHUB_RAW_BASE_URL owner repo branch (lstrip_slash file_path);
          local_path = path_join AUDIO_CACHE_DIR (basename file_path);
          w1 = w\<lparr>calls := calls w @ [audio_url]\<rparr>
      in case requests_get E audio_url of
           Inl e \<Rightarrow> (Inl (HTTPException 404 (''Audio file not found: '' @ str_exn e)), w1)
         | Inr response \<Rightarrow>
             (case raise_for_status response of
                Inl e \<Rightarrow> (Inl (HTTPException 404 (''Audio file not found: '' @ str_exn e)), w1)
              | Inr _ \<Rightarrow>
                  (case open_wb E local_path of
                     Inl e \<Rightarrow> (Inl e, w1)
                   | Inr _ \<Rightarrow>
                       (Inr local_path,
                        w1\<lparr>files := (files w1)(local_path \<mapsto> content response)\<rparr>))))"

text \<open>\<^verbatim>\<open>GET /audio/{owner}/{repo}/{branch}/{file_path:path}\<close>\<close>

definition get_audio_file ::
  "env \<Rightarrow> string \<Rightarrow> string \<Rightarrow> string \<Rightarrow> string \<Rightarrow> world \<Rightarrow> http_reply \<times> world" where
  "get_audio_file E owner repo branch file_path w =
     (case download_audio_from_github E owner repo branch file_path w of
        (Inr local_path, w') \<Rightarrow> (FileResponse local_path, w')
      | (Inl e, w') \<Rightarrow> (JSONResponse 500 (JObj [(''error'', JStr (str_exn e))]), w'))"

text \<open>The bytes a reply carries: a file response sends the file found at its path.\<close>

definition reply_bytes :: "world \<Rightarrow> http_reply \<Rightarrow> bytes option" where
  "reply_bytes w r = (case r of FileResponse p \<Rightarrow> files w p | JSONResponse _ _ \<Rightarrow> None)"

text \<open>\<^verbatim>\<open>item.get(key)\<close> for a dict \<open>item\<close>.\<close>

definition dict_get :: "(string \<times> json) list \<Rightarrow> string \<Rightarrow> json option" where
  "dict_get kvs k = map_of kvs k"

definition type_name :: "json \<Rightarrow> string" where
  "type_name j =
     (case j of JNull \<Rightarrow> ''NoneType'' | JBool _ \<Rightarrow> ''bool'' | JNum _ \<Rightarrow> ''int''
      | JFloat _ \<Rightarrow> ''float'' | JStr _ \<Rightarrow> ''str'' | JArr _ \<Rightarrow> ''list''
      | JObj _ \<Rightarrow> ''dict'')"

text \<open>\<^verbatim>\<open>v.lower()\<close>: only a string has the method.\<close>

definition py_lower :: "json \<Rightarrow> exn + string" where
  "py_lower v =
     (case v of
        JStr s \<Rightarrow> Inr (lower s)
      | _ \<Rightarrow> Inl (AttributeError
          ([CHR 0x27] @ type_name v @ [CHR 0x27] @ '' object has no attribute ''
             @ [CHR 0x27] @ ''lower'' @ [CHR 0x27])))"

text \<open>
  The condition of the comprehension, with Python's short-circuit \<^verbatim>\<open>and\<close>:
  \<^verbatim>\<open>isinstance(item, dict) and item.get('type') == 'file' and
  item.get('name', '').lower().endswith(SUPPORTED_FORMATS)\<close>
\<close>

definition is_audio_item :: "json \<Rightarrow> exn + bool" where
  "is_audio_item item =
     (case item of
        JObj kvs \<Rightarrow>
          if dict_get kvs ''type'' = Some (JStr ''file'') then
            (case py_lower (case dict_get kvs ''name'' of None \<Rightarrow> JStr '''' | Some v \<Rightarrow> v) of
               Inl e \<Rightarrow> Inl e
             | Inr s \<Rightarrow> Inr (endswith s SUPPORTED_FORMATS))
          else Inr False
      | _ \<Rightarrow> Inr False)"

text \<open>\<^verbatim>\<open>item['name']\<close>, reached only for a dict that has the key.\<close>

definition item_name :: "json \<Rightarrow> json" where
  "item_name item =
     (case item of
        JObj kvs \<Rightarrow> (case dict_get kvs ''name'' of Some v \<Rightarrow> v | None \<Rightarrow> JNull)
      | _ \<Rightarrow> JNull)"

text \<open>
  The list comprehension \<^verbatim>\<open>[item['name'] for item in contents if ...]\<close>: the items are
  visited in order and the first exception ends it.
\<close>

fun audio_files_of :: "json list \<Rightarrow> exn + json list" where
  "audio_files_of [] = Inr []"
| "audio_files_of (item # contents) =
     (case is_audio_item item of
        Inl e \<Rightarrow> Inl e
      | Inr keep \<Rightarrow>
          (case audio_files_of contents of
             Inl e \<Rightarrow> Inl e
           | Inr names \<Rightarrow> Inr (if keep then item_name item # names else names)))"

text \<open>
  \<^verbatim>\<open>GET /list-audio/{owner}/{repo}/{branch}/{path:path}\<close>. Only a RequestException is
  caught; any other exception leaves the handler (\<open>Inl\<close>).
\<close>

definition list_audio_files ::
  "env \<Rightarrow> string \<Rightarrow> string \<Rightarrow> string \<Rightarrow> string \<Rightarrow> world \<Rightarrow> (exn + http_reply) \<times> world" where
  "list_audio_files E owner repo branch path w =
     (let api_url = GITHUB_API_BASE_URL owner repo (lstrip_slash path) branch;
          w1 = w\<lparr>calls := calls w @ [api_url]\<rparr>;
          not_found = (\<lambda>e. Inr (JSONResponse 404 (JObj [(''error'', JStr (str_exn e))])))
      in case requests_get E api_url of
           Inl e \<Rightarrow> (not_found e, w1)
         | Inr response \<Rightarrow>
             (case raise_for_status response of
                Inl e \<Rightarrow> (not_found e, w1)
              | Inr _ \<Rightarrow>
                  (case response_json response of
                     Inl e \<Rightarrow> (not_found e, w1)
                   | Inr (JArr contents) \<Rightarrow>
                       (case audio_files_of contents of
                          Inl e \<Rightarrow> (Inl e, w1)
                        | Inr audio_files \<Rightarrow>
                            (Inr (JSONResponse 200 (JObj [(''audio_files'', JArr audio_files)])),
                             w1))
                   | Inr _ \<Rightarrow>
                       (Inr (JSONResponse 400
                          (JObj [(''error'', JStr ''Path is not a directory'')])), w1))))"

section \<open>The server manager\<close>

record manager =
  port :: "int option"
  server_thread :: "nat option"
  server_started :: bool

text \<open>\<^verbatim>\<open>ServerManager.__init__\<close>\<close>

definition init_manager :: manager where
  "init_manager = \<lparr>port = None, server_thread = None, server_started = False\<rparr>"

text \<open>
  What a method does to the outside, in order: a thread started to run the service on a
  port, or a GET with its \<^verbatim>\<open>timeout\<close> argument.
\<close>

datatype event = Launch nat int | HttpGet string "nat option"

text \<open>
  \<^verbatim>\<open>s.bind(('localhost', port))\<close> on a fresh socket, where the host name resolves: a
  number outside 0..65535 is refused by the socket module with OverflowError before the
  operating system is asked; a port that cannot be bound is an OSError.
\<close>

definition try_bind :: "env \<Rightarrow> int \<Rightarrow> exn + unit" where
  "try_bind E p =
     (if p < 0 \<or> 65535 < p then Inl (OverflowError ''bind(): port must be 0-65535.'')
      else if bind_free E p then Inr ()
      else Inl (OSError ''[Errno 98] Address already in use''))"

text \<open>
  The loop \<^verbatim>\<open>for port in range(start_port, start_port + 50)\<close>, with the count of ports
  still to visit: \<open>Inr (Some p)\<close> is \<^verbatim>\<open>return port\<close>, \<open>Inr None\<close> is the loop running out,
  and only an OSError is caught.
\<close>

fun probe_ports :: "env \<Rightarrow> int \<Rightarrow> nat \<Rightarrow> exn + int option" where
  "probe_ports E p 0 = Inr None"
| "probe_ports E p (Suc n) =
     (case try_bind E p of
        Inr _ \<Rightarrow> Inr (Some p)
      | Inl (OSError _) \<Rightarrow> probe_ports E (p + 1) n
      | Inl e \<Rightarrow> Inl e)"

definition find_available_port :: "env \<Rightarrow> int \<Rightarrow> exn + int" where
  "find_available_port E start_port =
     (case probe_ports E start_port 50 of
        Inl e \<Rightarrow> Inl e
      | Inr (Some p) \<Rightarrow> Inr p
      | Inr None \<Rightarrow>
          Inl (OSError (''No available port found in range '' @ str_int start_port @ ''-''
                 @ str_int (start_port + 49))))"

definition health_url :: "int \<Rightarrow> string" where
  "health_url p = ''http://localhost:'' @ str_int p @ ''/health''"

text \<open>A health probe counts when a response arrives and its status is 200.\<close>

definition probe_ok :: "http_outcome \<Rightarrow> bool" where
  "probe_ok r = (case r of Response resp \<Rightarrow> status_code resp = 200 | TransportError _ \<Rightarrow> False)"

text \<open>
  The readiness loop of \<^verbatim>\<open>start_server\<close>. Its argument is the outcomes of the health
  probes that fit before the deadline (\<^verbatim>\<open>SERVER_START_TIMEOUT\<close> seconds), in order; the
  loop stops at the first 200. The result is the final \<^verbatim>\<open>server_started\<close> and the number
  of probes sent.
\<close>

fun wait_ready :: "http_outcome list \<Rightarrow> bool \<times> nat" where
  "wait_ready [] = (False, 0)"
| "wait_ready (r # rs) =
     (if probe_ok r then (True, 1)
      else case wait_ready rs of (started, n) \<Rightarrow> (started, Suc n))"

text \<open>\<^verbatim>\<open>self.server_thread and self.server_thread.is_alive()\<close>\<close>

definition thread_running :: "env \<Rightarrow> manager \<Rightarrow> bool" where
  "thread_running E m =
     (case server_thread m of None \<Rightarrow> False | Some t \<Rightarrow> thread_alive E t)"

text \<open>
  \<^verbatim>\<open>start_server\<close>: \<open>tid\<close> is the thread object it creates and \<open>polls\<close> the probes of its
  readiness loop. The result is the exception raised (if any), the manager afterwards
  and what was done to the outside.
\<close>

definition start_server ::
  "env \<Rightarrow> nat \<Rightarrow> http_outcome list \<Rightarrow> manager \<Rightarrow> (exn + unit) \<times> manager \<times> event list" where
  "start_server E tid polls m =
     (if thread_running E m then (Inr (), m, [])
      else case find_available_port E 8000 of
        Inl e \<Rightarrow> (Inl e, m, [])
      | Inr p \<Rightarrow>
          (case wait_ready polls of
             (started, n) \<Rightarrow>
               (Inr (),
                m\<lparr>port := Some p, server_thread := Some tid, server_started := started\<rparr>,
                Launch tid p # replicate n (HttpGet (health_url p) None))))"

text \<open>\<^verbatim>\<open>is_server_running\<close>: \<^verbatim>\<open>not self.port\<close> holds for \<^verbatim>\<open>None\<close> and for 0.\<close>

definition is_server_running :: "env \<Rightarrow> manager \<Rightarrow> bool \<times> event list" where
  "is_server_running E m =
     (case port m of
        None \<Rightarrow> (False, [])
      | Some p \<Rightarrow>
          if p = 0 then (False, [])
          else (probe_ok (net E (health_url p)), [HttpGet (health_url p) (Some 1)]))"

text \<open>The managers that the methods can produce from a fresh one.\<close>

inductive reachable :: "manager \<Rightarrow> bool" where
  reach_init: "reachable init_manager"
| reach_start: "reachable m \<Longrightarrow> start_server E tid polls m = (r, m', evs) \<Longrightarrow> reachable m'"

section \<open>Notions used to state the properties\<close>

text \<open>
  The name of a listing entry that is a file: an object whose \<^verbatim>\<open>type\<close> is the string
  \<^verbatim>\<open>file\<close> and whose \<^verbatim>\<open>name\<close> is a string.
\<close>

definition file_name_of :: "json \<Rightarrow> string option" where
  "file_name_of item =
     (case item of
        JObj kvs \<Rightarrow>
          (if map_of kvs ''type'' = Some (JStr ''file'') then
             (case map_of kvs ''name'' of Some (JStr s) \<Rightarrow> Some s | _ \<Rightarrow> None)
           else None)
      | _ \<Rightarrow> None)"

text \<open>A name whose lower-cased form ends with a supported audio extension.\<close>

definition audio_name :: "string \<Rightarrow> bool" where
  "audio_name s = (\<exists>ext \<in> set SUPPORTED_FORMATS. suffix ext (lower s))"

text \<open>The names a listing should show, in the order of the source.\<close>

definition listed_names :: "json list \<Rightarrow> string list" where
  "listed_names contents = filter audio_name (List.map_filter file_name_of contents)"

text \<open>
  An entry is name-typed unless it is an object of type \<^verbatim>\<open>file\<close> whose \<^verbatim>\<open>name\<close> is present
  and is not a string.
\<close>

definition name_typed :: "json \<Rightarrow> bool" where
  "name_typed item =
     (case item of
        JObj kvs \<Rightarrow>
          (if map_of kvs ''type'' = Some (JStr ''file'') then
             (case map_of kvs ''name'' of None \<Rightarrow> True | Some (JStr _) \<Rightarrow> True | Some _ \<Rightarrow> False)
           else True)
      | _ \<Rightarrow> True)"

text \<open>An entry that is not an object, or an object without the key \<^verbatim>\<open>name\<close>.\<close>

definition nameless :: "json \<Rightarrow> bool" where
  "nameless item = (case item of JObj kvs \<Rightarrow> map_of kvs ''name'' = None | _ \<Rightarrow> True)"

text \<open>The answer that \<^verbatim>\<open>raise_for_status\<close> lets through.\<close>

definition status_passes :: "http_response \<Rightarrow> bool" where
  "status_passes r = (status_code r < 400 \<or> 600 \<le> status_code r)"

text \<open>The path of the cache entry of a requested file.\<close>

definition cache_path :: "string \<Rightarrow> string" where
  "cache_path file_path = AUDIO_CACHE_DIR @ ''/'' @ basename file_path"

text \<open>The cache entry can be written: its name is a file name and the system allows it.\<close>

definition writable :: "env \<Rightarrow> string \<Rightarrow> bool" where
  "writable E file_path =
     (basename file_path \<notin> {'''', ''.'', ''..''} \<and> open_error E (cache_path file_path) = None)"

text \<open>Every port from \<open>start\<close> to \<open>start + 49\<close> is a port number.\<close>

definition probe_range_valid :: "int \<Rightarrow> bool" where
  "probe_range_valid start = (0 \<le> start \<and> start + 49 \<le> 65535)"

section \<open>Concrete scenarios\<close>

text \<open>The number that a string of decimal digits denotes, read from the left.\<close>

definition digit_value :: "char \<Rightarrow> nat" where
  "digit_value c = of_char c - 48"

definition read_decimal :: "string \<Rightarrow> nat" where
  "read_decimal s = foldl (\<lambda>a c. 10 * a + digit_value c) 0 s"

definition ok_response :: "string \<Rightarrow> bytes \<Rightarrow> http_response" where
  "ok_response u body =
     \<lparr>status_code = 200, reason = ''OK'', url = u, content = body,
      json_body = Inl ''Expecting value: line 1 column 1 (char 0)''\<rparr>"

definition status_response :: "nat \<Rightarrow> string \<Rightarrow> string \<Rightarrow> bytes \<Rightarrow> http_response" where
  "status_response code phrase u body =
     \<lparr>status_code = code, reason = phrase, url = u, content = body,
      json_body = Inl ''Expecting value: line 1 column 1 (char 0)''\<rparr>"

definition json_response :: "nat \<Rightarrow> string \<Rightarrow> string \<Rightarrow> json \<Rightarrow> http_response" where
  "json_response code phrase u j =
     \<lparr>status_code = code, reason = phrase, url = u, content = [], json_body = Inr j\<rparr>"

definition file_entry :: "string \<Rightarrow> json" where
  "file_entry n = JObj [(''name'', JStr n), (''path'', JStr n), (''type'', JStr ''file'')]"

definition music_listing :: "json list" where
  "music_listing = [file_entry ''a.mp3'', file_entry ''b.txt'', file_entry ''c.FLAC'']"

definition odd_listing :: "json list" where
  "odd_listing = [file_entry ''a.mp3'', JObj [(''name'', JNull), (''type'', JStr ''file'')]]"

definition mixed_listing :: "json list" where
  "mixed_listing =
     [JNum 5, JObj [(''type'', JStr ''file'')], file_entry ''a.mp3'', JStr ''x.mp3'',
      JObj [(''name'', JStr ''sub''), (''type'', JStr ''dir'')]]"

definition numbered_listing :: "json list" where
  "numbered_listing = [JNum 5, JObj [(''name'', JNum 7), (''type'', JStr ''file'')]]"

definition demo_net :: "string \<Rightarrow> http_outcome" where
  "demo_net u =
     (if u = ''https://raw.githubusercontent.com/o/r/main/a/x.mp3'' then
        Response (ok_response u [1])
      else if u = ''https://raw.githubusercontent.com/o/r/main/b/x.mp3'' then
        Response (ok_response u [2])
      else if u = ''https://raw.githubusercontent.com/o/r/main/gone.mp3'' then
        Response (status_response 404 ''Not Found'' u [])
      else if u = ''https://raw.githubusercontent.com/o/r/main/many.mp3'' then
        Response (status_response 300 ''Multiple Choices'' u [7])
      else if u = ''https://api.github.com/repos/o/r/contents/music?ref=main'' then
        Response (json_response 200 ''OK'' u (JArr music_listing))
      else if u = ''https://api.github.com/repos/o/r/contents/music/a.mp3?ref=main'' then
        Response (json_response 200 ''OK'' u (file_entry ''a.mp3''))
      else if u = ''https://api.github.com/repos/o/r/contents/odd?ref=main'' then
        Response (json_response 200 ''OK'' u (JArr odd_listing))
      else if u = ''https://api.github.com/repos/o/r/contents/mixed?ref=main'' then
        Response (json_response 200 ''OK'' u (JArr mixed_listing))
      else if u = ''https://api.github.com/repos/o/r/contents/numbered?ref=main'' then
        Response (json_response 200 ''OK'' u (JArr numbered_listing))
      else if u = ''https://api.github.com/repos/o/r/contents/multi?ref=main'' then
        Response (json_response 300 ''Multiple Choices'' u (JArr music_listing))
      else if u = ''http://localhost:8003/health'' then
        Response (json_response 200 ''OK'' u (JObj [(''status'', JStr ''ok'')]))
      else TransportError ''Connection refused'')"

definition demo_env :: env where
  "demo_env =
     \<lparr>net = demo_net, open_error = (\<lambda>p. None), bind_free = (\<lambda>p. False),
      thread_alive = (\<lambda>t. False)\<rparr>"

definition busy_env :: env where
  "busy_env = demo_env\<lparr>bind_free := (\<lambda>p. p = 8003 \<or> p = 8007), thread_alive := (\<lambda>t. t = 1)\<rparr>"

definition edge_env :: env where
  "edge_env = demo_env\<lparr>bind_free := (\<lambda>p. p = 65510 \<or> p = 65530)\<rparr>"

definition offline_env :: env where
  "offline_env = demo_env\<lparr>net := (\<lambda>u. TransportError ''Connection refused'')\<rparr>"

definition started_manager :: manager where
  "started_manager = \<lparr>port = Some 8003, server_thread = Some 1, server_started = False\<rparr>"

definition empty_world :: world where
  "empty_world = \<lparr>files = Map.empty, calls = []\<rparr>"

definition cached_world :: world where
  "cached_world = \<lparr>files = [''audio_cache/x.mp3'' \<mapsto> [9]], calls = []\<rparr>"

definition is_array :: "json \<Rightarrow> bool" where
  "is_array j = (case j of JArr _ \<Rightarrow> True | _ \<Rightarrow> False)"

section \<open>Paths and the cache entry\<close>

lemma basename_no_slash: "CHR ''/'' \<notin> set (basename p)"
  unfolding basename_def using set_takeWhileD by fastforce

lemma basename_append_slash:
  assumes "CHR ''/'' \<notin> set b"
  shows "basename (a @ CHR ''/'' # b) = b"
proof -
  have "takeWhile (\<lambda>c. c \<noteq> CHR ''/'') (rev b @ CHR ''/'' # rev a) = rev b"
    using assms by (auto simp: takeWhile_tail takeWhile_eq_all_conv)
  then show ?thesis by (simp add: basename_def)
qed

lemma local_path_eq: "path_join AUDIO_CACHE_DIR (basename f) = cache_path f"
proof -
  have "basename f = [] \<or> hd (basename f) \<noteq> CHR ''/''"
    using basename_no_slash [of f] by (cases "basename f") auto
  then show ?thesis
    by (auto simp: path_join_def AUDIO_CACHE_DIR_def cache_path_def)
qed

lemma basename_cache_path: "basename (cache_path f) = basename f"
  by (simp add: cache_path_def basename_append_slash basename_no_slash)

lemma open_wb_writable: "writable E f \<Longrightarrow> open_wb E (cache_path f) = Inr ()"
  by (simp add: open_wb_def writable_def basename_cache_path)

lemma open_wb_not_writable:
  "\<not> writable E f \<Longrightarrow> \<exists>msg. open_wb E (cache_path f) = Inl (OSError msg)"
  by (auto simp: open_wb_def writable_def basename_cache_path split: option.splits)

lemma raise_for_status_passes: "status_passes r \<Longrightarrow> raise_for_status r = Inr ()"
  by (auto simp: raise_for_status_def status_passes_def)

lemma raise_for_status_fails:
  "\<not> status_passes r \<Longrightarrow> \<exists>cause. raise_for_status r = Inl (RequestException cause)"
  by (auto simp: raise_for_status_def status_passes_def)

lemma download_calls:
  "calls (snd (download_audio_from_github E owner repo branch f w)) =
     calls w @ [GITHUB_RAW_BASE_URL owner repo branch (lstrip_slash f)]"
  by (simp add: download_audio_from_github_def Let_def split: sum.splits)

lemma download_success:
  assumes "net E (GITHUB_RAW_BASE_URL owner repo branch (lstrip_slash f)) = Response r"
    and "status_passes r" and "writable E f"
  shows "download_audio_from_github E owner repo branch f w =
     (Inr (cache_path f),
      w\<lparr>calls := calls w @ [GITHUB_RAW_BASE_URL owner repo branch (lstrip_slash f)],
        files := (files w)(cache_path f \<mapsto> content r)\<rparr>)"
  using assms
  by (simp add: download_audio_from_github_def Let_def requests_get_def
      raise_for_status_passes local_path_eq open_wb_writable)

lemma get_audio_file_calls:
  "calls (snd (get_audio_file E owner repo branch f w)) =
     calls w @ [GITHUB_RAW_BASE_URL owner repo branch (lstrip_slash f)]"
  using download_calls [of E owner repo branch f w]
  by (cases "download_audio_from_github E owner repo branch f w")
     (auto simp: get_audio_file_def split: sum.splits)

lemma get_audio_file_success:
  assumes "net E (GITHUB_RAW_BASE_URL owner repo branch (lstrip_slash f)) = Response r"
    and "status_passes r" and "writable E f"
  shows "get_audio_file E owner repo branch f w =
     (FileResponse (cache_path f),
      w\<lparr>calls := calls w @ [GITHUB_RAW_BASE_URL owner repo branch (lstrip_slash f)],
        files := (files w)(cache_path f \<mapsto> content r)\<rparr>)"
  by (simp add: get_audio_file_def download_success [OF assms])

section \<open>The file route: fetch, write, serve\<close>

lemma demo_writable: "writable demo_env ''a/x.mp3''" "writable demo_env ''b/x.mp3''" "writable demo_env ''many.mp3''"
  by (simp_all add: writable_def basename_def demo_env_def)

lemma demo_cache_path: "cache_path ''a/x.mp3'' = ''audio_cache/x.mp3''" "cache_path ''b/x.mp3'' = ''audio_cache/x.mp3''"
  "cache_path ''many.mp3'' = ''audio_cache/many.mp3''"
  by (simp_all add: cache_path_def basename_def AUDIO_CACHE_DIR_def)

lemma demo_url:
  "GITHUB_RAW_BASE_URL ''o'' ''r'' ''main'' (lstrip_slash ''a/x.mp3'') =
     ''https://raw.githubusercontent.com/o/r/main/a/x.mp3''"
  "GITHUB_RAW_BASE_URL ''o'' ''r'' ''main'' (lstrip_slash ''b/x.mp3'') =
     ''https://raw.githubusercontent.com/o/r/main/b/x.mp3''"
  "GITHUB_RAW_BASE_URL ''o'' ''r'' ''main'' (lstrip_slash ''gone.mp3'') =
     ''https://raw.githubusercontent.com/o/r/main/gone.mp3''"
  "GITHUB_RAW_BASE_URL ''o'' ''r'' ''main'' (lstrip_slash ''many.mp3'') =
     ''https://raw.githubusercontent.com/o/r/main/many.mp3''"
  by (simp_all add: GITHUB_RAW_BASE_URL_def lstrip_slash_def)

lemma demo_net_files:
  "net demo_env ''https://raw.githubusercontent.com/o/r/main/a/x.mp3'' =
     Response (ok_response ''https://raw.githubusercontent.com/o/r/main/a/x.mp3'' [1])"
  "net demo_env ''https://raw.githubusercontent.com/o/r/main/b/x.mp3'' =
     Response (ok_response ''https://raw.githubusercontent.com/o/r/main/b/x.mp3'' [2])"
  "net demo_env ''https://raw.githubusercontent.com/o/r/main/gone.mp3'' =
     Response (status_response 404 ''Not Found''
       ''https://raw.githubusercontent.com/o/r/main/gone.mp3'' [])"
  "net demo_env ''https://raw.githubusercontent.com/o/r/main/many.mp3'' =
     Response (status_response 300 ''Multiple Choices''
       ''https://raw.githubusercontent.com/o/r/main/many.mp3'' [7])"
  by (simp_all add: demo_env_def demo_net_def)

lemma ok_response_passes: "status_passes (ok_response u body)"
  by (simp add: status_passes_def ok_response_def)

lemma demo_get_a:
  "get_audio_file demo_env ''o'' ''r'' ''main'' ''a/x.mp3'' w =
     (FileResponse ''audio_cache/x.mp3'',
      w\<lparr>calls := calls w @ [''https://raw.githubusercontent.com/o/r/main/a/x.mp3''],
        files := (files w)(''audio_cache/x.mp3'' \<mapsto> [1])\<rparr>)"
  using get_audio_file_success [of demo_env "''o''" "''r''" "''main''" "''a/x.mp3''" _ w,
      unfolded demo_url, OF demo_net_files(1) ok_response_passes demo_writable(1)]
  by (simp add: demo_cache_path ok_response_def)

lemma demo_get_b:
  "get_audio_file demo_env ''o'' ''r'' ''main'' ''b/x.mp3'' w =
     (FileResponse ''audio_cache/x.mp3'',
      w\<lparr>calls := calls w @ [''https://raw.githubusercontent.com/o/r/main/b/x.mp3''],
        files := (files w)(''audio_cache/x.mp3'' \<mapsto> [2])\<rparr>)"
  using get_audio_file_success [of demo_env "''o''" "''r''" "''main''" "''b/x.mp3''" _ w,
      unfolded demo_url, OF demo_net_files(2) ok_response_passes demo_writable(2)]
  by (simp add: demo_cache_path ok_response_def)

text \<open>
  C1, as stated, fails: with \<^verbatim>\<open>audio_cache/x.mp3\<close> already on disk the route still asks
  the remote source and serves the new bytes, and two requests for one file make two
  remote calls.
\<close>

theorem cached_entry_refetched_counterexample:
  "files cached_world ''audio_cache/x.mp3'' = Some [9] \<and>
   calls (snd (get_audio_file demo_env ''o'' ''r'' ''main'' ''a/x.mp3'' cached_world)) =
     calls cached_world @ [''https://raw.githubusercontent.com/o/r/main/a/x.mp3''] \<and>
   reply_bytes (snd (get_audio_file demo_env ''o'' ''r'' ''main'' ''a/x.mp3'' cached_world))
     (fst (get_audio_file demo_env ''o'' ''r'' ''main'' ''a/x.mp3'' cached_world)) = Some [1] \<and>
   length (calls (snd (get_audio_file demo_env ''o'' ''r'' ''main'' ''a/x.mp3''
     (snd (get_audio_file demo_env ''o'' ''r'' ''main'' ''a/x.mp3'' empty_world))))) = 2"
  by (simp add: demo_get_a cached_world_def empty_world_def reply_bytes_def)

text \<open>
  C1 (amended): every \<^verbatim>\<open>GET /audio/...\<close> derives the cache path from the base name of the
  file path and issues exactly one remote fetch, whether or not the entry exists. When
  the remote answers with a status that is not in 400..599 and the entry can be written,
  the entry is overwritten with the fetched bytes and those bytes are served. Requesting
  the same file again makes a second remote call.
\<close>

theorem get_audio_file_fetches_every_time:
  assumes "u = GITHUB_RAW_BASE_URL owner repo branch (lstrip_slash f)"
    and "get_audio_file E owner repo branch f w = (reply, w')"
  shows "calls w' = calls w @ [u] \<and>
    (\<forall>r. net E u = Response r \<and> status_passes r \<and> writable E f \<longrightarrow>
       reply = FileResponse (cache_path f) \<and>
       files w' = (files w)(cache_path f \<mapsto> content r) \<and>
       reply_bytes w' reply = Some (content r)) \<and>
    (\<forall>E2. calls (snd (get_audio_file E2 owner repo branch f w')) = calls w @ [u, u])"
proof -
  have c: "calls w' = calls w @ [u]"
    using get_audio_file_calls [of E owner repo branch f w] assms by simp
  have s: "reply = FileResponse (cache_path f) \<and>
       files w' = (files w)(cache_path f \<mapsto> content r) \<and>
       reply_bytes w' reply = Some (content r)"
    if "net E u = Response r" "status_passes r" "writable E f" for r
    using get_audio_file_success [of E owner repo branch f r w] that assms
    by (auto simp: reply_bytes_def)
  have t: "calls (snd (get_audio_file E2 owner repo branch f w')) = calls w @ [u, u]" for E2
    using get_audio_file_calls [of E2 owner repo branch f w'] c assms(1) by simp
  from c s t show ?thesis by blast
qed

theorem get_audio_file_fetches_every_time_witness:
  "net demo_env ''https://raw.githubusercontent.com/o/r/main/a/x.mp3'' =
     Response (ok_response ''https://raw.githubusercontent.com/o/r/main/a/x.mp3'' [1]) \<and>
   status_passes (ok_response ''https://raw.githubusercontent.com/o/r/main/a/x.mp3'' [1]) \<and>
   writable demo_env ''a/x.mp3'' \<and>
   calls (snd (get_audio_file demo_env ''o'' ''r'' ''main'' ''a/x.mp3'' cached_world)) =
     [''https://raw.githubusercontent.com/o/r/main/a/x.mp3''] \<and>
   fst (get_audio_file demo_env ''o'' ''r'' ''main'' ''a/x.mp3'' cached_world) =
     FileResponse ''audio_cache/x.mp3'' \<and>
   reply_bytes (snd (get_audio_file demo_env ''o'' ''r'' ''main'' ''a/x.mp3'' cached_world))
     (fst (get_audio_file demo_env ''o'' ''r'' ''main'' ''a/x.mp3'' cached_world)) = Some [1]"
proof -
  let ?g = "get_audio_file demo_env ''o'' ''r'' ''main'' ''a/x.mp3'' cached_world"
  have g: "?g = (fst ?g, snd ?g)" by simp
  have "calls (snd ?g) = calls cached_world @ [''https://raw.githubusercontent.com/o/r/main/a/x.mp3'']"
    and "fst ?g = FileResponse (cache_path ''a/x.mp3'')"
    and "reply_bytes (snd ?g) (fst ?g) =
      Some (content (ok_response ''https://raw.githubusercontent.com/o/r/main/a/x.mp3'' [1]))"
    using get_audio_file_fetches_every_time [OF demo_url(1) [symmetric] g]
      demo_net_files(1) ok_response_passes demo_writable(1) by blast+
  then show ?thesis
    using demo_net_files(1) ok_response_passes demo_writable(1)
    by (simp add: demo_cache_path cached_world_def ok_response_def)
qed


text \<open>
  C2, as stated, fails in its last part: after the second file has overwritten the entry,
  a request for the first file serves the first file's bytes again.
\<close>

theorem same_basename_refetch_counterexample:
  "basename ''a/x.mp3'' = basename ''b/x.mp3'' \<and>
   files (snd (get_audio_file demo_env ''o'' ''r'' ''main'' ''b/x.mp3''
      (snd (get_audio_file demo_env ''o'' ''r'' ''main'' ''a/x.mp3'' empty_world))))
     ''audio_cache/x.mp3'' = Some [2] \<and>
   reply_bytes
     (snd (get_audio_file demo_env ''o'' ''r'' ''main'' ''a/x.mp3''
       (snd (get_audio_file demo_env ''o'' ''r'' ''main'' ''b/x.mp3''
         (snd (get_audio_file demo_env ''o'' ''r'' ''main'' ''a/x.mp3'' empty_world))))))
     (fst (get_audio_file demo_env ''o'' ''r'' ''main'' ''a/x.mp3''
       (snd (get_audio_file demo_env ''o'' ''r'' ''main'' ''b/x.mp3''
         (snd (get_audio_file demo_env ''o'' ''r'' ''main'' ''a/x.mp3'' empty_world))))))
     = Some [1]"
  by (simp add: demo_get_a demo_get_b empty_world_def reply_bytes_def basename_def)

text \<open>Files with one base name share one cache entry.\<close>

lemma cache_path_cong: "basename f1 = basename f2 \<Longrightarrow> cache_path f2 = cache_path f1"
  by (simp add: cache_path_def)

lemma writable_cong: "basename f1 = basename f2 \<Longrightarrow> writable E f1 \<Longrightarrow> writable E f2"
  by (simp add: writable_def cache_path_def)

text \<open>
  C2 (amended): the cache is keyed by base file name only. For two remote files with the
  same base name, both fetched successfully, the second fetch overwrites the entry that
  the first wrote; a later request for the first file fetches it again, serves the first
  file's bytes and overwrites the entry once more.
\<close>

theorem same_basename_overwrites_then_refetches:
  assumes "basename f1 = basename f2"
    and "u1 = GITHUB_RAW_BASE_URL o1 r1 b1 (lstrip_slash f1)"
    and "u2 = GITHUB_RAW_BASE_URL o2 r2 b2 (lstrip_slash f2)"
    and "net E u1 = Response resp1" and "status_passes resp1"
    and "net E u2 = Response resp2" and "status_passes resp2"
    and "writable E f1"
    and "get_audio_file E o1 r1 b1 f1 w = (reply1, w1)"
    and "get_audio_file E o2 r2 b2 f2 w1 = (reply2, w2)"
    and "get_audio_file E o1 r1 b1 f1 w2 = (reply3, w3)"
  shows "cache_path f2 = cache_path f1 \<and>
    files w1 (cache_path f1) = Some (content resp1) \<and>
    files w2 (cache_path f1) = Some (content resp2) \<and>
    reply3 = FileResponse (cache_path f1) \<and>
    reply_bytes w3 reply3 = Some (content resp1) \<and>
    calls w3 = calls w @ [u1, u2, u1]"
proof -
  have cp: "cache_path f2 = cache_path f1"
    using assms(1) by (rule cache_path_cong)
  have wr2: "writable E f2"
    using assms(1,8) by (rule writable_cong)
  have g1: "get_audio_file E o1 r1 b1 f1 w =
      (FileResponse (cache_path f1),
       w\<lparr>calls := calls w @ [u1], files := (files w)(cache_path f1 \<mapsto> content resp1)\<rparr>)"
    using get_audio_file_success [of E o1 r1 b1 f1 resp1 w] assms(2,4,5,8) by simp
  then have w1: "w1 = w\<lparr>calls := calls w @ [u1],
      files := (files w)(cache_path f1 \<mapsto> content resp1)\<rparr>"
    using assms(9) by simp
  have g2: "get_audio_file E o2 r2 b2 f2 w1 =
      (FileResponse (cache_path f2),
       w1\<lparr>calls := calls w1 @ [u2], files := (files w1)(cache_path f2 \<mapsto> content resp2)\<rparr>)"
    using get_audio_file_success [of E o2 r2 b2 f2 resp2 w1] assms(3,6,7) wr2 by simp
  then have w2: "w2 = w1\<lparr>calls := calls w1 @ [u2],
      files := (files w1)(cache_path f2 \<mapsto> content resp2)\<rparr>"
    using assms(10) by simp
  have g3: "get_audio_file E o1 r1 b1 f1 w2 =
      (FileResponse (cache_path f1),
       w2\<lparr>calls := calls w2 @ [u1], files := (files w2)(cache_path f1 \<mapsto> content resp1)\<rparr>)"
    using get_audio_file_success [of E o1 r1 b1 f1 resp1 w2] assms(2,4,5,8) by simp
  then have w3: "reply3 = FileResponse (cache_path f1)"
      "w3 = w2\<lparr>calls := calls w2 @ [u1],
        files := (files w2)(cache_path f1 \<mapsto> content resp1)\<rparr>"
    using assms(11) by simp_all
  show ?thesis
    by (simp add: cp w1 w2 w3 reply_bytes_def)
qed

theorem same_basename_overwrites_then_refetches_witness:
  "basename ''a/x.mp3'' = basename ''b/x.mp3'' \<and>
   writable demo_env ''a/x.mp3'' \<and>
   files (snd (get_audio_file demo_env ''o'' ''r'' ''main'' ''b/x.mp3''
      (snd (get_audio_file demo_env ''o'' ''r'' ''main'' ''a/x.mp3'' cached_world))))
     ''audio_cache/x.mp3'' = Some [2] \<and>
   calls (snd (get_audio_file demo_env ''o'' ''r'' ''main'' ''a/x.mp3''
       (snd (get_audio_file demo_env ''o'' ''r'' ''main'' ''b/x.mp3''
         (snd (get_audio_file demo_env ''o'' ''r'' ''main'' ''a/x.mp3'' cached_world)))))) =
     [''https://raw.githubusercontent.com/o/r/main/a/x.mp3'',
      ''https://raw.githubusercontent.com/o/r/main/b/x.mp3'',
      ''https://raw.githubusercontent.com/o/r/main/a/x.mp3'']"
proof -
  let ?g1 = "get_audio_file demo_env ''o'' ''r'' ''main'' ''a/x.mp3'' cached_world"
  let ?g2 = "get_audio_file demo_env ''o'' ''r'' ''main'' ''b/x.mp3'' (snd ?g1)"
  let ?g3 = "get_audio_file demo_env ''o'' ''r'' ''main'' ''a/x.mp3'' (snd ?g2)"
  have b: "basename ''a/x.mp3'' = basename ''b/x.mp3''"
    by (simp add: basename_def)
  have "files (snd ?g2) (cache_path ''a/x.mp3'') =
      Some (content (ok_response ''https://raw.githubusercontent.com/o/r/main/b/x.mp3'' [2]))"
    and "calls (snd ?g3) = calls cached_world @
      [''https://raw.githubusercontent.com/o/r/main/a/x.mp3'',
       ''https://raw.githubusercontent.com/o/r/main/b/x.mp3'',
       ''https://raw.githubusercontent.com/o/r/main/a/x.mp3'']"
    using same_basename_overwrites_then_refetches [OF b demo_url(1) [symmetric]
        demo_url(2) [symmetric] demo_net_files(1) ok_response_passes demo_net_files(2)
        ok_response_passes demo_writable(1), of cached_world "fst ?g1" "snd ?g1" "fst ?g2"
        "snd ?g2" "fst ?g3" "snd ?g3"]
    by simp_all
  then show ?thesis
    using b demo_writable(1)
    by (simp add: demo_cache_path cached_world_def ok_response_def)
qed


lemma str_nat_small: "n < 10 \<Longrightarrow> str_nat n = [digit_char n]"
  by (simp add: str_nat.simps)

lemma str_nat_step: "10 \<le> n \<Longrightarrow> str_nat n = str_nat (n div 10) @ [digit_char (n mod 10)]"
  by (subst str_nat.simps) simp

lemma digit_value_digit_char: "d < 10 \<Longrightarrow> digit_value (digit_char d) = d"
proof -
  assume "d < 10"
  then have "d = 0 \<or> d = 1 \<or> d = 2 \<or> d = 3 \<or> d = 4 \<or> d = 5 \<or> d = 6 \<or> d = 7 \<or> d = 8 \<or> d = 9"
    by arith
  then show ?thesis
    by (elim disjE) (simp_all add: digit_value_def digit_char_def)
qed

lemma read_decimal_snoc: "read_decimal (s @ [c]) = 10 * read_decimal s + digit_value c"
  by (simp add: read_decimal_def)

lemma read_decimal_str_nat: "read_decimal (str_nat n) = n"
proof (induction n rule: str_nat.induct)
  case (1 n)
  show ?case
  proof (cases "n < 10")
    case True
    then show ?thesis
      by (simp add: str_nat.simps [of n] read_decimal_def digit_value_digit_char)
  next
    case False
    with 1 have "read_decimal (str_nat (n div 10)) = n div 10" by simp
    with False show ?thesis
      by (simp add: str_nat.simps [of n] read_decimal_snoc digit_value_digit_char)
  qed
qed

lemma read_decimal_str_int: "0 \<le> i \<Longrightarrow> int (read_decimal (str_int i)) = i"
  by (simp add: str_int_def read_decimal_str_nat)

lemma str_nat_404: "str_nat 404 = ''404''"
  by (simp add: str_nat_small str_nat_step digit_char_def)

lemma get_audio_file_transport_error:
  assumes "net E (GITHUB_RAW_BASE_URL owner repo branch (lstrip_slash f)) = TransportError msg"
  shows "fst (get_audio_file E owner repo branch f w) =
    JSONResponse 500 (JObj [(''error'', JStr (''404: Audio file not found: '' @ msg))])"
  using assms
  by (simp add: get_audio_file_def download_audio_from_github_def Let_def requests_get_def
      str_nat_404)

lemma get_audio_file_error_status:
  assumes "net E (GITHUB_RAW_BASE_URL owner repo branch (lstrip_slash f)) = Response r"
    and "raise_for_status r = Inl (RequestException cause)"
  shows "fst (get_audio_file E owner repo branch f w) =
    JSONResponse 500 (JObj [(''error'', JStr (''404: Audio file not found: '' @ cause))])"
  using assms
  by (simp add: get_audio_file_def download_audio_from_github_def Let_def requests_get_def
      str_nat_404)

lemma get_audio_file_write_error:
  assumes "net E (GITHUB_RAW_BASE_URL owner repo branch (lstrip_slash f)) = Response r"
    and "status_passes r" and "open_wb E (cache_path f) = Inl (OSError msg)"
  shows "fst (get_audio_file E owner repo branch f w) =
    JSONResponse 500 (JObj [(''error'', JStr msg)])"
  using assms
  by (simp add: get_audio_file_def download_audio_from_github_def Let_def requests_get_def
      raise_for_status_passes local_path_eq)

lemma raise_for_status_404:
  "status_code r = 404 \<Longrightarrow> raise_for_status r =
     Inl (RequestException (''404 Client Error: '' @ reason r @ '' for url: '' @ url r))"
  by (simp add: raise_for_status_def str_nat_404)

text \<open>
  C5 (amended): on \<^verbatim>\<open>GET /audio/...\<close> every failure of the download, that is a transport
  error of the remote fetch, a remote status in 400..599, or a file system error of the
  cache write, gives a 500 reply with the JSON body \<^verbatim>\<open>{error: message}\<close>. A remote 404
  gives the message \<^verbatim>\<open>404: Audio file not found: 404 Client Error: <reason> for url:
  <url>\<close>, which is not empty and ends with the cause.
\<close>

theorem get_audio_file_failures_are_500:
  assumes "u = GITHUB_RAW_BASE_URL owner repo branch (lstrip_slash f)"
    and "reply = fst (get_audio_file E owner repo branch f w)"
  shows
   "(\<forall>msg. net E u = TransportError msg \<longrightarrow>
       reply = JSONResponse 500 (JObj [(''error'', JStr (''404: Audio file not found: '' @ msg))])) \<and>
    (\<forall>r. net E u = Response r \<and> 400 \<le> status_code r \<and> status_code r < 600 \<longrightarrow>
       (\<exists>cause. raise_for_status r = Inl (RequestException cause) \<and>
          reply = JSONResponse 500
            (JObj [(''error'', JStr (''404: Audio file not found: '' @ cause))]))) \<and>
    (\<forall>r. net E u = Response r \<and> status_code r = 404 \<longrightarrow>
       reply = JSONResponse 500 (JObj [(''error'', JStr (''404: Audio file not found: '' @
         ''404 Client Error: '' @ reason r @ '' for url: '' @ url r))])) \<and>
    (\<forall>r. net E u = Response r \<and> status_passes r \<and> \<not> writable E f \<longrightarrow>
       (\<exists>msg. open_wb E (cache_path f) = Inl (OSError msg) \<and>
          reply = JSONResponse 500 (JObj [(''error'', JStr msg)]))) \<and>
    (\<forall>e. fst (download_audio_from_github E owner repo branch f w) = Inl e \<longrightarrow>
       reply = JSONResponse 500 (JObj [(''error'', JStr (str_exn e))]))"
proof -
  have a: "reply = JSONResponse 500
      (JObj [(''error'', JStr (''404: Audio file not found: '' @ msg))])"
    if "net E u = TransportError msg" for msg
    using get_audio_file_transport_error [of E owner repo branch f msg w] that assms by simp
  have b: "\<exists>cause. raise_for_status r = Inl (RequestException cause) \<and>
      reply = JSONResponse 500 (JObj [(''error'', JStr (''404: Audio file not found: '' @ cause))])"
    if nr: "net E u = Response r" and lo: "400 \<le> status_code r" and hi: "status_code r < 600"
    for r
  proof -
    from lo hi have "\<not> status_passes r" by (simp add: status_passes_def)
    then obtain cause where c: "raise_for_status r = Inl (RequestException cause)"
      using raise_for_status_fails by blast
    with get_audio_file_error_status [of E owner repo branch f r cause w] nr assms
    show ?thesis by auto
  qed
  have c: "reply = JSONResponse 500 (JObj [(''error'', JStr (''404: Audio file not found: '' @
         ''404 Client Error: '' @ reason r @ '' for url: '' @ url r))])"
    if "net E u = Response r" "status_code r = 404" for r
    using get_audio_file_error_status [OF _ raise_for_status_404, of E owner repo branch f r w]
      that assms by simp
  have d: "\<exists>msg. open_wb E (cache_path f) = Inl (OSError msg) \<and>
      reply = JSONResponse 500 (JObj [(''error'', JStr msg)])"
    if nr: "net E u = Response r" and sp: "status_passes r" and nw: "\<not> writable E f" for r
  proof -
    obtain msg where m: "open_wb E (cache_path f) = Inl (OSError msg)"
      using open_wb_not_writable [OF nw] by blast
    with get_audio_file_write_error [of E owner repo branch f r msg w] nr sp assms
    show ?thesis by auto
  qed
  have e: "reply = JSONResponse 500 (JObj [(''error'', JStr (str_exn e))])"
    if "fst (download_audio_from_github E owner repo branch f w) = Inl e" for e
    using that assms(2)
    by (cases "download_audio_from_github E owner repo branch f w")
       (simp add: get_audio_file_def)
  from a b c d e show ?thesis by blast
qed

theorem get_audio_file_failures_are_500_witness:
  "net demo_env ''https://raw.githubusercontent.com/o/r/main/gone.mp3'' =
     Response (status_response 404 ''Not Found''
       ''https://raw.githubusercontent.com/o/r/main/gone.mp3'' []) \<and>
   fst (get_audio_file demo_env ''o'' ''r'' ''main'' ''gone.mp3'' empty_world) =
     JSONResponse 500 (JObj [(''error'', JStr
       (''404: Audio file not found: 404 Client Error: Not Found for url: '' @
        ''https://raw.githubusercontent.com/o/r/main/gone.mp3''))])"
  using get_audio_file_failures_are_500 [OF demo_url(3) [symmetric] refl,
      of demo_env empty_world] demo_net_files(3)
  by (simp add: status_response_def)

text \<open>
  C5, as stated, fails for a status that is neither 2xx nor an error for
  \<^verbatim>\<open>raise_for_status\<close>: a remote 300 is written to the cache and served.
\<close>

theorem non_2xx_status_served_counterexample:
  "net demo_env ''https://raw.githubusercontent.com/o/r/main/many.mp3'' =
     Response (status_response 300 ''Multiple Choices''
       ''https://raw.githubusercontent.com/o/r/main/many.mp3'' [7]) \<and>
   get_audio_file demo_env ''o'' ''r'' ''main'' ''many.mp3'' empty_world =
     (FileResponse ''audio_cache/many.mp3'',
      \<lparr>files = [''audio_cache/many.mp3'' \<mapsto> [7]],
       calls = [''https://raw.githubusercontent.com/o/r/main/many.mp3'']\<rparr>)"
  using get_audio_file_success [of demo_env "''o''" "''r''" "''main''" "''many.mp3''" _
      empty_world, unfolded demo_url, OF demo_net_files(4) _ demo_writable(3)]
    demo_net_files(4)
  by (simp add: demo_cache_path status_response_def status_passes_def empty_world_def)

section \<open>The listing route: the filter\<close>

lemma ends_with_suffix: "ends_with s suf \<longleftrightarrow> suffix suf s"
proof
  assume "ends_with s suf"
  then have "drop (length s - length suf) s = suf"
    by (simp add: ends_with_def)
  then have "s = take (length s - length suf) s @ suf"
    by (metis append_take_drop_id)
  then show "suffix suf s"
    unfolding suffix_def by blast
next
  assume "suffix suf s"
  then obtain pre where "s = pre @ suf"
    unfolding suffix_def by blast
  then show "ends_with s suf"
    by (simp add: ends_with_def)
qed

lemma endswith_audio_name: "endswith (lower s) SUPPORTED_FORMATS \<longleftrightarrow> audio_name s"
  by (simp add: endswith_def audio_name_def list_ex_iff ends_with_suffix)

lemma not_audio_name_empty: "\<not> audio_name []"
  by (simp add: audio_name_def SUPPORTED_FORMATS_def lower_def)

lemma is_audio_item_typed:
  assumes "name_typed item"
  shows "is_audio_item item =
    Inr (case file_name_of item of Some s \<Rightarrow> audio_name s | None \<Rightarrow> False)"
proof (cases item)
  case (JObj kvs)
  show ?thesis
  proof (cases "map_of kvs ''type'' = Some (JStr ''file'')")
    case True
    with assms JObj show ?thesis
      using not_audio_name_empty endswith_audio_name [of "[]"]
      by (auto simp: is_audio_item_def name_typed_def file_name_of_def dict_get_def
          py_lower_def endswith_audio_name split: option.splits json.splits)
  next
    case False
    with JObj show ?thesis
      by (simp add: is_audio_item_def file_name_of_def dict_get_def)
  qed
qed (simp_all add: is_audio_item_def file_name_of_def)

lemma is_audio_item_untyped:
  "\<not> name_typed item \<Longrightarrow> \<exists>msg. is_audio_item item = Inl (AttributeError msg)"
  by (auto simp: is_audio_item_def name_typed_def dict_get_def py_lower_def
      split: json.splits option.splits if_splits)

lemma item_name_file: "file_name_of item = Some s \<Longrightarrow> item_name item = JStr s"
  by (auto simp: file_name_of_def item_name_def dict_get_def
      split: json.splits option.splits if_splits)

lemma listed_names_Cons:
  "listed_names (item # contents) =
     (case file_name_of item of
        Some s \<Rightarrow> if audio_name s then s # listed_names contents else listed_names contents
      | None \<Rightarrow> listed_names contents)"
  by (simp add: listed_names_def map_filter_simps split: option.splits)

lemma audio_files_of_typed:
  "list_all name_typed contents \<Longrightarrow>
     audio_files_of contents = Inr (map JStr (listed_names contents))"
proof (induction contents)
  case Nil
  show ?case by (simp add: listed_names_def map_filter_simps)
next
  case (Cons item contents)
  then have t: "name_typed item" and ih: "audio_files_of contents = Inr (map JStr (listed_names contents))"
    by simp_all
  show ?case
    by (cases "file_name_of item")
       (simp_all add: is_audio_item_typed [OF t] ih listed_names_Cons item_name_file)
qed

lemma audio_files_of_untyped:
  "\<not> list_all name_typed contents \<Longrightarrow> \<exists>msg. audio_files_of contents = Inl (AttributeError msg)"
proof (induction contents)
  case Nil
  then show ?case by simp
next
  case (Cons item contents)
  show ?case
  proof (cases "name_typed item")
    case False
    then show ?thesis
      using is_audio_item_untyped [of item] by auto
  next
    case True
    with Cons obtain msg where "audio_files_of contents = Inl (AttributeError msg)"
      by auto
    then show ?thesis
      by (simp add: is_audio_item_typed [OF True])
  qed
qed

lemma nameless_typed: "nameless item \<Longrightarrow> name_typed item"
  by (auto simp: nameless_def name_typed_def split: json.splits)

lemma nameless_no_file_name: "nameless item \<Longrightarrow> file_name_of item = None"
  by (auto simp: nameless_def file_name_of_def split: json.splits)

lemma is_audio_item_nameless: "nameless item \<Longrightarrow> is_audio_item item = Inr False"
  by (simp add: is_audio_item_typed nameless_typed nameless_no_file_name)

lemma audio_files_of_skip:
  "nameless item \<Longrightarrow> audio_files_of (xs @ item # ys) = audio_files_of (xs @ ys)"
proof (induction xs)
  case Nil
  then show ?case
    by (simp add: is_audio_item_nameless split: sum.splits)
next
  case (Cons x xs)
  then show ?case by (simp cong: sum.case_cong)
qed

lemma listed_names_drop_nameless:
  "listed_names (filter (\<lambda>i. \<not> nameless i) contents) = listed_names contents"
proof (induction contents)
  case Nil
  show ?case by simp
next
  case (Cons item contents)
  then show ?case
    by (cases "nameless item")
       (auto simp: listed_names_Cons nameless_no_file_name split: option.splits)
qed


section \<open>The listing route: replies\<close>

lemma list_audio_files_world:
  "snd (list_audio_files E owner repo branch path w) =
     w\<lparr>calls := calls w @ [GITHUB_API_BASE_URL owner repo (lstrip_slash path) branch]\<rparr>"
  by (simp add: list_audio_files_def Let_def split: sum.splits json.splits)

lemma list_audio_files_transport_error:
  assumes "net E (GITHUB_API_BASE_URL owner repo (lstrip_slash path) branch) = TransportError msg"
  shows "fst (list_audio_files E owner repo branch path w) =
    Inr (JSONResponse 404 (JObj [(''error'', JStr msg)]))"
  using assms by (simp add: list_audio_files_def Let_def requests_get_def)

lemma list_audio_files_error_status:
  assumes "net E (GITHUB_API_BASE_URL owner repo (lstrip_slash path) branch) = Response r"
    and "raise_for_status r = Inl (RequestException cause)"
  shows "fst (list_audio_files E owner repo branch path w) =
    Inr (JSONResponse 404 (JObj [(''error'', JStr cause)]))"
  using assms by (simp add: list_audio_files_def Let_def requests_get_def)

lemma list_audio_files_not_json:
  assumes "net E (GITHUB_API_BASE_URL owner repo (lstrip_slash path) branch) = Response r"
    and "status_passes r" and "json_body r = Inl msg"
  shows "fst (list_audio_files E owner repo branch path w) =
    Inr (JSONResponse 404 (JObj [(''error'', JStr msg)]))"
  using assms
  by (simp add: list_audio_files_def Let_def requests_get_def raise_for_status_passes
      response_json_def)

lemma list_audio_files_not_array:
  assumes "net E (GITHUB_API_BASE_URL owner repo (lstrip_slash path) branch) = Response r"
    and "status_passes r" and "json_body r = Inr j" and "\<not> is_array j"
  shows "fst (list_audio_files E owner repo branch path w) =
    Inr (JSONResponse 400 (JObj [(''error'', JStr ''Path is not a directory'')]))"
  using assms
  by (cases j)
     (simp_all add: list_audio_files_def Let_def requests_get_def raise_for_status_passes
      response_json_def is_array_def)

lemma list_audio_files_array:
  assumes "net E (GITHUB_API_BASE_URL owner repo (lstrip_slash path) branch) = Response r"
    and "status_passes r" and "json_body r = Inr (JArr contents)"
  shows "fst (list_audio_files E owner repo branch path w) =
    (case audio_files_of contents of
       Inl e \<Rightarrow> Inl e
     | Inr audio_files \<Rightarrow>
         Inr (JSONResponse 200 (JObj [(''audio_files'', JArr audio_files)])))"
  using assms
  by (simp add: list_audio_files_def Let_def requests_get_def raise_for_status_passes
      response_json_def split: sum.splits)

lemma list_audio_files_typed:
  assumes "net E (GITHUB_API_BASE_URL owner repo (lstrip_slash path) branch) = Response r"
    and "status_passes r" and "json_body r = Inr (JArr contents)"
    and "list_all name_typed contents"
  shows "fst (list_audio_files E owner repo branch path w) =
    Inr (JSONResponse 200 (JObj [(''audio_files'', JArr (map JStr (listed_names contents)))]))"
  by (simp add: list_audio_files_array [OF assms(1-3)] audio_files_of_typed [OF assms(4)])

lemma demo_api_url:
  "GITHUB_API_BASE_URL ''o'' ''r'' (lstrip_slash ''music'') ''main'' =
     ''https://api.github.com/repos/o/r/contents/music?ref=main''"
  "GITHUB_API_BASE_URL ''o'' ''r'' (lstrip_slash ''music/a.mp3'') ''main'' =
     ''https://api.github.com/repos/o/r/contents/music/a.mp3?ref=main''"
  "GITHUB_API_BASE_URL ''o'' ''r'' (lstrip_slash ''odd'') ''main'' =
     ''https://api.github.com/repos/o/r/contents/odd?ref=main''"
  "GITHUB_API_BASE_URL ''o'' ''r'' (lstrip_slash ''mixed'') ''main'' =
     ''https://api.github.com/repos/o/r/contents/mixed?ref=main''"
  "GITHUB_API_BASE_URL ''o'' ''r'' (lstrip_slash ''numbered'') ''main'' =
     ''https://api.github.com/repos/o/r/contents/numbered?ref=main''"
  "GITHUB_API_BASE_URL ''o'' ''r'' (lstrip_slash ''multi'') ''main'' =
     ''https://api.github.com/repos/o/r/contents/multi?ref=main''"
  by (simp_all add: GITHUB_API_BASE_URL_def lstrip_slash_def)

lemma demo_net_listings:
  "net demo_env ''https://api.github.com/repos/o/r/contents/music?ref=main'' =
     Response (json_response 200 ''OK''
       ''https://api.github.com/repos/o/r/contents/music?ref=main'' (JArr music_listing))"
  "net demo_env ''https://api.github.com/repos/o/r/contents/music/a.mp3?ref=main'' =
     Response (json_response 200 ''OK''
       ''https://api.github.com/repos/o/r/contents/music/a.mp3?ref=main'' (file_entry ''a.mp3''))"
  "net demo_env ''https://api.github.com/repos/o/r/contents/odd?ref=main'' =
     Response (json_response 200 ''OK''
       ''https://api.github.com/repos/o/r/contents/odd?ref=main'' (JArr odd_listing))"
  "net demo_env ''https://api.github.com/repos/o/r/contents/mixed?ref=main'' =
     Response (json_response 200 ''OK''
       ''https://api.github.com/repos/o/r/contents/mixed?ref=main'' (JArr mixed_listing))"
  "net demo_env ''https://api.github.com/repos/o/r/contents/numbered?ref=main'' =
     Response (json_response 200 ''OK''
       ''https://api.github.com/repos/o/r/contents/numbered?ref=main'' (JArr numbered_listing))"
  "net demo_env ''https://api.github.com/repos/o/r/contents/multi?ref=main'' =
     Response (json_response 300 ''Multiple Choices''
       ''https://api.github.com/repos/o/r/contents/multi?ref=main'' (JArr music_listing))"
  by (simp_all add: demo_env_def demo_net_def)

lemma json_response_passes: "code < 400 \<Longrightarrow> status_passes (json_response code phrase u j)"
  by (simp add: status_passes_def json_response_def)

lemma json_response_body: "json_body (json_response code phrase u j) = Inr j"
  by (simp add: json_response_def)

lemma music_listing_typed: "list_all name_typed music_listing"
  by code_simp

lemma music_listing_names: "listed_names music_listing = [''a.mp3'', ''c.FLAC'']"
  by code_simp

lemma mixed_listing_typed: "list_all name_typed mixed_listing"
  by code_simp

lemma mixed_listing_names:
  "listed_names (filter (\<lambda>i. \<not> nameless i) mixed_listing) = [''a.mp3'']"
  by code_simp

lemma odd_listing_raises:
  "audio_files_of odd_listing =
     Inl (AttributeError ([CHR 0x27] @ ''NoneType'' @ [CHR 0x27] @
       '' object has no attribute '' @ [CHR 0x27] @ ''lower'' @ [CHR 0x27]))"
  by code_simp

lemma numbered_listing_raises:
  "audio_files_of numbered_listing =
     Inl (AttributeError ([CHR 0x27] @ ''int'' @ [CHR 0x27] @
       '' object has no attribute '' @ [CHR 0x27] @ ''lower'' @ [CHR 0x27]))"
  by code_simp


text \<open>
  C3 (amended): for every JSON array of the remote listing in which each entry of type
  \<^verbatim>\<open>file\<close> that has a name has a string name, the listing returns exactly the names of
  the entries whose type is \<^verbatim>\<open>file\<close> and whose lower-cased name ends with one of
  \<^verbatim>\<open>.mp3 .wav .ogg .flac .m4a\<close>, in the order of the source, and the route replies 200
  with them.
\<close>

theorem list_audio_returns_audio_names:
  assumes "list_all name_typed contents"
  shows "audio_files_of contents = Inr (map JStr (listed_names contents)) \<and>
    (\<forall>E owner repo branch path w r.
       net E (GITHUB_API_BASE_URL owner repo (lstrip_slash path) branch) = Response r \<and>
       status_passes r \<and> json_body r = Inr (JArr contents) \<longrightarrow>
       fst (list_audio_files E owner repo branch path w) =
         Inr (JSONResponse 200
           (JObj [(''audio_files'', JArr (map JStr (listed_names contents)))])))"
  using audio_files_of_typed [OF assms] list_audio_files_typed [OF _ _ _ assms]
  by blast

theorem list_audio_returns_audio_names_witness:
  "list_all name_typed music_listing \<and>
   music_listing = [file_entry ''a.mp3'', file_entry ''b.txt'', file_entry ''c.FLAC''] \<and>
   audio_files_of music_listing = Inr [JStr ''a.mp3'', JStr ''c.FLAC''] \<and>
   fst (list_audio_files demo_env ''o'' ''r'' ''main'' ''music'' empty_world) =
     Inr (JSONResponse 200 (JObj [(''audio_files'', JArr [JStr ''a.mp3'', JStr ''c.FLAC''])]))"
proof -
  have p: "status_passes (json_response 200 ''OK''
      ''https://api.github.com/repos/o/r/contents/music?ref=main'' (JArr music_listing))"
    by (simp add: json_response_passes)
  have "audio_files_of music_listing = Inr (map JStr (listed_names music_listing))"
    and "fst (list_audio_files demo_env ''o'' ''r'' ''main'' ''music'' empty_world) =
      Inr (JSONResponse 200
        (JObj [(''audio_files'', JArr (map JStr (listed_names music_listing)))]))"
    using list_audio_returns_audio_names [OF music_listing_typed]
      demo_net_listings(1) p json_response_body
    by (simp_all add: demo_api_url)
  then have "audio_files_of music_listing = Inr [JStr ''a.mp3'', JStr ''c.FLAC'']"
    and "fst (list_audio_files demo_env ''o'' ''r'' ''main'' ''music'' empty_world) =
      Inr (JSONResponse 200 (JObj [(''audio_files'', JArr [JStr ''a.mp3'', JStr ''c.FLAC''])]))"
    by (simp_all add: music_listing_names)
  moreover have "music_listing = [file_entry ''a.mp3'', file_entry ''b.txt'', file_entry ''c.FLAC'']"
    by (simp add: music_listing_def)
  ultimately show ?thesis
    using music_listing_typed by blast
qed

text \<open>
  C3, as stated, fails for an array that holds a file entry whose name is not a string:
  the listing raises instead of returning the names of the other entries.
\<close>

theorem null_name_listing_counterexample:
  "odd_listing = [file_entry ''a.mp3'', JObj [(''name'', JNull), (''type'', JStr ''file'')]] \<and>
   audio_files_of odd_listing =
     Inl (AttributeError ([CHR 0x27] @ ''NoneType'' @ [CHR 0x27] @
       '' object has no attribute '' @ [CHR 0x27] @ ''lower'' @ [CHR 0x27])) \<and>
   fst (list_audio_files demo_env ''o'' ''r'' ''main'' ''odd'' empty_world) =
     Inl (AttributeError ([CHR 0x27] @ ''NoneType'' @ [CHR 0x27] @
       '' object has no attribute '' @ [CHR 0x27] @ ''lower'' @ [CHR 0x27]))"
proof -
  have "fst (list_audio_files demo_env ''o'' ''r'' ''main'' ''odd'' empty_world) =
      (case audio_files_of odd_listing of
         Inl e \<Rightarrow> Inl e
       | Inr audio_files \<Rightarrow>
           Inr (JSONResponse 200 (JObj [(''audio_files'', JArr audio_files)])))"
    using list_audio_files_array [of demo_env "''o''" "''r''" "''odd''" "''main''" _
        odd_listing empty_world, unfolded demo_api_url, OF demo_net_listings(3)]
    by (simp add: json_response_passes json_response_body)
  then have "fst (list_audio_files demo_env ''o'' ''r'' ''main'' ''odd'' empty_world) =
      Inl (AttributeError ([CHR 0x27] @ ''NoneType'' @ [CHR 0x27] @
        '' object has no attribute '' @ [CHR 0x27] @ ''lower'' @ [CHR 0x27]))"
    by (simp add: odd_listing_raises)
  moreover have
    "odd_listing = [file_entry ''a.mp3'', JObj [(''name'', JNull), (''type'', JStr ''file'')]]"
    by (simp add: odd_listing_def)
  ultimately show ?thesis
    using odd_listing_raises by blast
qed

text \<open>
  C4 (amended): \<^verbatim>\<open>GET /list-audio/...\<close> makes exactly one remote call, the listing call,
  and touches no file. If that call fails, by a transport error, a status in 400..599 or
  a body that is not JSON, the reply is 404 with \<^verbatim>\<open>{error: ...}\<close>. If it yields a JSON
  value that is not an array, the reply is 400 with \<^verbatim>\<open>{error: ...}\<close>. If it yields an
  array in which each file entry that has a name has a string name, the reply is 200 with
  \<^verbatim>\<open>{audio_files: [...]}\<close>.
\<close>

theorem list_audio_files_replies:
  assumes "u = GITHUB_API_BASE_URL owner repo (lstrip_slash path) branch"
    and "list_audio_files E owner repo branch path w = (res, w')"
  shows
   "w' = w\<lparr>calls := calls w @ [u]\<rparr> \<and>
    (\<forall>msg. net E u = TransportError msg \<longrightarrow>
       res = Inr (JSONResponse 404 (JObj [(''error'', JStr msg)]))) \<and>
    (\<forall>r. net E u = Response r \<and> 400 \<le> status_code r \<and> status_code r < 600 \<longrightarrow>
       (\<exists>cause. raise_for_status r = Inl (RequestException cause) \<and>
          res = Inr (JSONResponse 404 (JObj [(''error'', JStr cause)])))) \<and>
    (\<forall>r msg. net E u = Response r \<and> status_passes r \<and> json_body r = Inl msg \<longrightarrow>
       res = Inr (JSONResponse 404 (JObj [(''error'', JStr msg)]))) \<and>
    (\<forall>r j. net E u = Response r \<and> status_passes r \<and> json_body r = Inr j \<and> \<not> is_array j \<longrightarrow>
       res = Inr (JSONResponse 400 (JObj [(''error'', JStr ''Path is not a directory'')]))) \<and>
    (\<forall>r contents. net E u = Response r \<and> status_passes r \<and>
         json_body r = Inr (JArr contents) \<and> list_all name_typed contents \<longrightarrow>
       res = Inr (JSONResponse 200
         (JObj [(''audio_files'', JArr (map JStr (listed_names contents)))])))"
proof -
  have res: "res = fst (list_audio_files E owner repo branch path w)"
    and w': "w' = snd (list_audio_files E owner repo branch path w)"
    using assms(2) by simp_all
  have a: "w' = w\<lparr>calls := calls w @ [u]\<rparr>"
    using list_audio_files_world [of E owner repo branch path w] w' assms(1) by simp
  have b: "res = Inr (JSONResponse 404 (JObj [(''error'', JStr msg)]))"
    if "net E u = TransportError msg" for msg
    using list_audio_files_transport_error [of E owner repo path branch msg w] that res assms(1)
    by simp
  have c: "\<exists>cause. raise_for_status r = Inl (RequestException cause) \<and>
      res = Inr (JSONResponse 404 (JObj [(''error'', JStr cause)]))"
    if nr: "net E u = Response r" and lo: "400 \<le> status_code r" and hi: "status_code r < 600"
    for r
  proof -
    from lo hi have "\<not> status_passes r" by (simp add: status_passes_def)
    then obtain cause where "raise_for_status r = Inl (RequestException cause)"
      using raise_for_status_fails by blast
    with list_audio_files_error_status [of E owner repo path branch r cause w] nr res assms(1)
    show ?thesis by auto
  qed
  have d: "res = Inr (JSONResponse 404 (JObj [(''error'', JStr msg)]))"
    if "net E u = Response r" "status_passes r" "json_body r = Inl msg" for r msg
    using list_audio_files_not_json [of E owner repo path branch r msg w] that res assms(1)
    by simp
  have e: "res = Inr (JSONResponse 400 (JObj [(''error'', JStr ''Path is not a directory'')]))"
    if "net E u = Response r" "status_passes r" "json_body r = Inr j" "\<not> is_array j" for r j
    using list_audio_files_not_array [of E owner repo path branch r j w] that res assms(1)
    by simp
  have f: "res = Inr (JSONResponse 200
      (JObj [(''audio_files'', JArr (map JStr (listed_names contents)))]))"
    if "net E u = Response r" "status_passes r" "json_body r = Inr (JArr contents)"
      "list_all name_typed contents" for r contents
    using list_audio_files_typed [of E owner repo path branch r contents w] that res assms(1)
    by simp
  from a b c d e f show ?thesis by blast
qed

theorem list_audio_files_replies_witness:
  "net demo_env ''https://api.github.com/repos/o/r/contents/music/a.mp3?ref=main'' =
     Response (json_response 200 ''OK''
       ''https://api.github.com/repos/o/r/contents/music/a.mp3?ref=main'' (file_entry ''a.mp3'')) \<and>
   \<not> is_array (file_entry ''a.mp3'') \<and>
   list_audio_files demo_env ''o'' ''r'' ''main'' ''music/a.mp3'' empty_world =
     (Inr (JSONResponse 400 (JObj [(''error'', JStr ''Path is not a directory'')])),
      \<lparr>files = Map.empty,
       calls = [''https://api.github.com/repos/o/r/contents/music/a.mp3?ref=main'']\<rparr>)"
proof -
  let ?l = "list_audio_files demo_env ''o'' ''r'' ''main'' ''music/a.mp3'' empty_world"
  have l: "?l = (fst ?l, snd ?l)" by simp
  have na: "\<not> is_array (file_entry ''a.mp3'')"
    by (simp add: is_array_def file_entry_def)
  have p: "status_passes (json_response 200 ''OK''
      ''https://api.github.com/repos/o/r/contents/music/a.mp3?ref=main'' (file_entry ''a.mp3''))"
    by (simp add: json_response_passes)
  have "snd ?l = empty_world\<lparr>calls := calls empty_world @
        [''https://api.github.com/repos/o/r/contents/music/a.mp3?ref=main'']\<rparr>"
    and "fst ?l = Inr (JSONResponse 400 (JObj [(''error'', JStr ''Path is not a directory'')]))"
    using list_audio_files_replies [OF demo_api_url(2) [symmetric] l]
      demo_net_listings(2) p json_response_body na
    by blast+
  then have "?l = (Inr (JSONResponse 400 (JObj [(''error'', JStr ''Path is not a directory'')])),
      empty_world\<lparr>calls := calls empty_world @
        [''https://api.github.com/repos/o/r/contents/music/a.mp3?ref=main'']\<rparr>)"
    using l by simp
  then show ?thesis
    using demo_net_listings(2) na by (simp add: empty_world_def)
qed

text \<open>
  C4, as stated, fails for a remote status that is not 2xx and not in 400..599: a 300
  answer carrying an array is listed with a 200 reply, not turned into a 404.
\<close>

theorem non_2xx_listing_counterexample:
  "net demo_env ''https://api.github.com/repos/o/r/contents/multi?ref=main'' =
     Response (json_response 300 ''Multiple Choices''
       ''https://api.github.com/repos/o/r/contents/multi?ref=main'' (JArr music_listing)) \<and>
   status_code (json_response 300 ''Multiple Choices''
       ''https://api.github.com/repos/o/r/contents/multi?ref=main'' (JArr music_listing)) = 300 \<and>
   fst (list_audio_files demo_env ''o'' ''r'' ''main'' ''multi'' empty_world) =
     Inr (JSONResponse 200 (JObj [(''audio_files'', JArr [JStr ''a.mp3'', JStr ''c.FLAC''])]))"
  using list_audio_files_typed [of demo_env "''o''" "''r''" "''multi''" "''main''" _
      music_listing empty_world, unfolded demo_api_url, OF demo_net_listings(6) _ _
      music_listing_typed]
    demo_net_listings(6)
  by (simp add: json_response_passes json_response_body music_listing_names)
     (simp add: json_response_def)

text \<open>
  C10 (amended): an array entry that is not an object, or an object without a name, never
  changes what the filter of \<^verbatim>\<open>/list-audio\<close> does with the array. For every JSON array
  in which each file entry that has a name has a string name, the route replies 200 with
  \<^verbatim>\<open>{audio_files}\<close> built only from the entries that are objects with a name.
\<close>

theorem list_audio_skips_malformed_entries:
  "(\<forall>xs item ys. nameless item \<longrightarrow>
      audio_files_of (xs @ item # ys) = audio_files_of (xs @ ys)) \<and>
   (\<forall>E owner repo branch path w r contents.
      net E (GITHUB_API_BASE_URL owner repo (lstrip_slash path) branch) = Response r \<and>
      status_passes r \<and> json_body r = Inr (JArr contents) \<and>
      list_all name_typed contents \<longrightarrow>
      fst (list_audio_files E owner repo branch path w) =
        Inr (JSONResponse 200 (JObj [(''audio_files'',
          JArr (map JStr (listed_names (filter (\<lambda>i. \<not> nameless i) contents))))])))"
  using audio_files_of_skip list_audio_files_typed
  by (simp add: listed_names_drop_nameless)

theorem list_audio_skips_malformed_entries_witness:
  "mixed_listing =
     [JNum 5, JObj [(''type'', JStr ''file'')], file_entry ''a.mp3'', JStr ''x.mp3'',
      JObj [(''name'', JStr ''sub''), (''type'', JStr ''dir'')]] \<and>
   nameless (JNum 5) \<and> nameless (JObj [(''type'', JStr ''file'')]) \<and>
   list_all name_typed mixed_listing \<and>
   audio_files_of ([] @ JNum 5 # tl mixed_listing) = audio_files_of ([] @ tl mixed_listing) \<and>
   fst (list_audio_files demo_env ''o'' ''r'' ''main'' ''mixed'' empty_world) =
     Inr (JSONResponse 200 (JObj [(''audio_files'', JArr [JStr ''a.mp3''])]))"
proof -
  have n: "nameless (JNum 5)" "nameless (JObj [(''type'', JStr ''file'')])"
    by (simp_all add: nameless_def)
  have p: "status_passes (json_response 200 ''OK''
      ''https://api.github.com/repos/o/r/contents/mixed?ref=main'' (JArr mixed_listing))"
    by (simp add: json_response_passes)
  have "audio_files_of ([] @ JNum 5 # tl mixed_listing) = audio_files_of ([] @ tl mixed_listing)"
    and "fst (list_audio_files demo_env ''o'' ''r'' ''main'' ''mixed'' empty_world) =
      Inr (JSONResponse 200 (JObj [(''audio_files'',
        JArr (map JStr (listed_names (filter (\<lambda>i. \<not> nameless i) mixed_listing))))]))"
    using list_audio_skips_malformed_entries n(1) demo_net_listings(4) p json_response_body
      mixed_listing_typed demo_api_url(4)
    by metis+
  then have "audio_files_of ([] @ JNum 5 # tl mixed_listing) = audio_files_of ([] @ tl mixed_listing)"
    and "fst (list_audio_files demo_env ''o'' ''r'' ''main'' ''mixed'' empty_world) =
      Inr (JSONResponse 200 (JObj [(''audio_files'', JArr [JStr ''a.mp3''])]))"
    by (simp_all add: mixed_listing_names)
  moreover have "mixed_listing =
     [JNum 5, JObj [(''type'', JStr ''file'')], file_entry ''a.mp3'', JStr ''x.mp3'',
      JObj [(''name'', JStr ''sub''), (''type'', JStr ''dir'')]]"
    by (simp add: mixed_listing_def)
  ultimately show ?thesis
    using n mixed_listing_typed by blast
qed

text \<open>
  C10, as stated, fails for an array that holds a file entry whose name is a number: the
  route raises instead of replying 200.
\<close>

theorem number_name_listing_counterexample:
  "numbered_listing = [JNum 5, JObj [(''name'', JNum 7), (''type'', JStr ''file'')]] \<and>
   net demo_env ''https://api.github.com/repos/o/r/contents/numbered?ref=main'' =
     Response (json_response 200 ''OK''
       ''https://api.github.com/repos/o/r/contents/numbered?ref=main'' (JArr numbered_listing)) \<and>
   fst (list_audio_files demo_env ''o'' ''r'' ''main'' ''numbered'' empty_world) =
     Inl (AttributeError ([CHR 0x27] @ ''int'' @ [CHR 0x27] @
       '' object has no attribute '' @ [CHR 0x27] @ ''lower'' @ [CHR 0x27]))"
proof -
  have "fst (list_audio_files demo_env ''o'' ''r'' ''main'' ''numbered'' empty_world) =
      (case audio_files_of numbered_listing of
         Inl e \<Rightarrow> Inl e
       | Inr audio_files \<Rightarrow>
           Inr (JSONResponse 200 (JObj [(''audio_files'', JArr audio_files)])))"
    using list_audio_files_array [of demo_env "''o''" "''r''" "''numbered''" "''main''" _
        numbered_listing empty_world, unfolded demo_api_url, OF demo_net_listings(5)]
    by (simp add: json_response_passes json_response_body)
  then have "fst (list_audio_files demo_env ''o'' ''r'' ''main'' ''numbered'' empty_world) =
      Inl (AttributeError ([CHR 0x27] @ ''int'' @ [CHR 0x27] @
        '' object has no attribute '' @ [CHR 0x27] @ ''lower'' @ [CHR 0x27]))"
    by (simp add: numbered_listing_raises)
  moreover have
    "numbered_listing = [JNum 5, JObj [(''name'', JNum 7), (''type'', JStr ''file'')]]"
    by (simp add: numbered_listing_def)
  ultimately show ?thesis
    using demo_net_listings(5) by blast
qed


section \<open>The server manager: port search\<close>

lemma try_bind_Inr: "try_bind E p = Inr x \<longleftrightarrow> 0 \<le> p \<and> p \<le> 65535 \<and> bind_free E p"
  by (auto simp: try_bind_def)

lemma try_bind_valid:
  "0 \<le> p \<Longrightarrow> p \<le> 65535 \<Longrightarrow> \<not> bind_free E p \<Longrightarrow>
     try_bind E p = Inl (OSError ''[Errno 98] Address already in use'')"
  by (simp add: try_bind_def)

lemma probe_ports_Some:
  "probe_ports E p n = Inr (Some q) \<Longrightarrow>
     p \<le> q \<and> q < p + int n \<and> bind_free E q \<and> 0 \<le> q \<and> q \<le> 65535 \<and>
     (\<forall>q'. p \<le> q' \<and> q' < q \<and> 0 \<le> q' \<longrightarrow> \<not> bind_free E q')"
proof (induction n arbitrary: p)
  case 0
  then show ?case by simp
next
  case (Suc n)
  show ?case
  proof (cases "try_bind E p")
    case (Inr x)
    with Suc.prems have "q = p" by simp
    with Inr show ?thesis by (auto simp: try_bind_Inr)
  next
    case (Inl e)
    with Suc.prems obtain msg where e: "e = OSError msg"
      and rest: "probe_ports E (p + 1) n = Inr (Some q)"
      by (cases e) auto
    from Inl have np: "\<not> bind_free E p \<or> p < 0 \<or> 65535 < p"
      by (auto simp: try_bind_def split: if_splits)
    from Suc.IH [OF rest] have ih: "p + 1 \<le> q" "q < p + 1 + int n" "bind_free E q"
      "0 \<le> q" "q \<le> 65535"
      "\<And>q'. p + 1 \<le> q' \<Longrightarrow> q' < q \<Longrightarrow> 0 \<le> q' \<Longrightarrow> \<not> bind_free E q'"
      by blast+
    have "\<not> bind_free E q'" if "p \<le> q'" "q' < q" "0 \<le> q'" for q'
    proof (cases "q' = p")
      case True
      with np that ih(5) show ?thesis by auto
    next
      case False
      with that have "p + 1 \<le> q'" by simp
      with ih(6) that show ?thesis by blast
    qed
    with ih show ?thesis by simp
  qed
qed

lemma probe_ports_valid:
  "0 \<le> p \<Longrightarrow> p + int n \<le> 65536 \<Longrightarrow>
     (\<exists>q. probe_ports E p n = Inr (Some q)) \<or>
     (probe_ports E p n = Inr None \<and> (\<forall>q. p \<le> q \<and> q < p + int n \<longrightarrow> \<not> bind_free E q))"
proof (induction n arbitrary: p)
  case 0
  then show ?case by auto
next
  case (Suc n)
  show ?case
  proof (cases "bind_free E p")
    case True
    with Suc.prems have "try_bind E p = Inr ()"
      by (simp add: try_bind_def)
    then show ?thesis by simp
  next
    case False
    with Suc.prems have t: "try_bind E p = Inl (OSError ''[Errno 98] Address already in use'')"
      by (simp add: try_bind_def)
    from Suc.prems have "0 \<le> p + 1" "p + 1 + int n \<le> 65536" by simp_all
    from Suc.IH [OF this] show ?thesis
    proof
      assume "\<exists>q. probe_ports E (p + 1) n = Inr (Some q)"
      with t show ?thesis by simp
    next
      assume r: "probe_ports E (p + 1) n = Inr None \<and>
        (\<forall>q. p + 1 \<le> q \<and> q < p + 1 + int n \<longrightarrow> \<not> bind_free E q)"
      have "\<not> bind_free E q" if "p \<le> q" "q < p + int (Suc n)" for q
      proof (cases "q = p")
        case True
        with False show ?thesis by simp
      next
        case False
        with that have "p + 1 \<le> q" "q < p + 1 + int n" by simp_all
        with r show ?thesis by blast
      qed
      with t r show ?thesis by simp
    qed
  qed
qed

lemma probe_ports_finds:
  "0 \<le> s \<Longrightarrow> s \<le> p \<Longrightarrow> p < s + int n \<Longrightarrow> p \<le> 65535 \<Longrightarrow> bind_free E p \<Longrightarrow>
     \<exists>q. probe_ports E s n = Inr (Some q)"
proof (induction n arbitrary: s)
  case 0
  then show ?case by simp
next
  case (Suc n)
  show ?case
  proof (cases "bind_free E s")
    case True
    with Suc.prems have "try_bind E s = Inr ()"
      by (simp add: try_bind_def)
    then show ?thesis by simp
  next
    case False
    with Suc.prems have t: "try_bind E s = Inl (OSError ''[Errno 98] Address already in use'')"
      by (simp add: try_bind_def)
    from False Suc.prems have "s \<noteq> p" by auto
    with Suc.prems have "0 \<le> s + 1" "s + 1 \<le> p" "p < s + 1 + int n" by simp_all
    from Suc.IH [OF this Suc.prems(4,5)] t show ?thesis by simp
  qed
qed

lemma find_available_port_finds:
  assumes "0 \<le> start" and "start \<le> p" and "p \<le> start + 49" and "p \<le> 65535"
    and "bind_free E p"
  shows "\<exists>q. find_available_port E start = Inr q"
proof -
  from assms(3) have "p < start + int 50" by simp
  from probe_ports_finds [OF assms(1,2) this assms(4,5)]
  obtain q where "probe_ports E start 50 = Inr (Some q)" by blast
  then show ?thesis
    by (simp add: find_available_port_def)
qed

lemma find_available_port_Inr:
  assumes "find_available_port E start = Inr p"
  shows "start \<le> p \<and> p \<le> start + 49 \<and> bind_free E p \<and> 0 \<le> p \<and> p \<le> 65535 \<and>
    (\<forall>q. start \<le> q \<and> q < p \<and> 0 \<le> q \<longrightarrow> \<not> bind_free E q)"
proof -
  from assms have "probe_ports E start 50 = Inr (Some p)"
    by (auto simp: find_available_port_def split: sum.splits option.splits)
  from probe_ports_Some [OF this] show ?thesis by auto
qed

lemma find_available_port_exhausted:
  assumes "probe_range_valid start"
    and "\<forall>q. start \<le> q \<and> q \<le> start + 49 \<longrightarrow> \<not> bind_free E q"
  shows "find_available_port E start =
    Inl (OSError (''No available port found in range '' @ str_int start @ ''-''
           @ str_int (start + 49)))"
proof -
  from assms(1) have v: "0 \<le> start" "start + int 50 \<le> 65536"
    by (simp_all add: probe_range_valid_def)
  have "\<not> (\<exists>q. probe_ports E start 50 = Inr (Some q))"
  proof
    assume "\<exists>q. probe_ports E start 50 = Inr (Some q)"
    then obtain q where "probe_ports E start 50 = Inr (Some q)" by blast
    from probe_ports_Some [OF this] have "start \<le> q" "q \<le> start + 49" "bind_free E q"
      by simp_all
    with assms(2) show False by blast
  qed
  with probe_ports_valid [OF v, of E] have "probe_ports E start 50 = Inr None"
    by blast
  then show ?thesis
    by (simp add: find_available_port_def)
qed

lemma find_available_port_valid:
  assumes "probe_range_valid start"
  shows "(\<exists>p. find_available_port E start = Inr p) \<or>
    (find_available_port E start =
       Inl (OSError (''No available port found in range '' @ str_int start @ ''-''
              @ str_int (start + 49))) \<and>
     (\<forall>q. start \<le> q \<and> q \<le> start + 49 \<longrightarrow> \<not> bind_free E q))"
proof -
  from assms have v: "0 \<le> start" "start + int 50 \<le> 65536"
    by (simp_all add: probe_range_valid_def)
  from probe_ports_valid [OF v, of E] show ?thesis
  proof
    assume "\<exists>q. probe_ports E start 50 = Inr (Some q)"
    then show ?thesis
      by (auto simp: find_available_port_def)
  next
    assume "probe_ports E start 50 = Inr None \<and>
      (\<forall>q. start \<le> q \<and> q < start + int 50 \<longrightarrow> \<not> bind_free E q)"
    then show ?thesis
      by (auto simp: find_available_port_def)
  qed
qed


lemma busy_env_fields:
  "bind_free busy_env = (\<lambda>p. p = 8003 \<or> p = 8007)"
  "thread_alive busy_env = (\<lambda>t. t = 1)"
  "net busy_env = demo_net"
  by (simp_all add: busy_env_def demo_env_def)

lemma demo_env_fields:
  "bind_free demo_env = (\<lambda>p. False)"
  "thread_alive demo_env = (\<lambda>t. False)"
  by (simp_all add: demo_env_def)

lemma str_int_8000: "str_int 8000 = ''8000''" "str_int 8049 = ''8049''"
  by (simp_all add: str_int_def str_nat_small str_nat_step digit_char_def)

lemma edge_env_fields: "bind_free edge_env = (\<lambda>p. p = 65510 \<or> p = 65530)"
  by (simp add: edge_env_def demo_env_def)

text \<open>
  C6 (amended): for every start port and every configuration of bound ports,
  \<^verbatim>\<open>find_available_port\<close> probes \<open>start, start + 1, ..., start + 49\<close> in order and returns
  the first bindable port: a port it returns is bindable and lies in the probed range,
  and for a start port (a number from 0 on), whenever some port of the probed range (a
  number up to 65535) is free, it returns the lowest free port from \<open>start\<close> on. If none
  of the 50 numbers can be bound and all of them are port numbers
  (\<open>start + 49 \<le> 65535\<close>), it fails with the OSError
  \<^verbatim>\<open>No available port found in range ...\<close>.
\<close>

theorem find_available_port_lowest_free:
  "(\<forall>p. find_available_port E start = Inr p \<longrightarrow>
      bind_free E p \<and> start \<le> p \<and> p \<le> start + 49) \<and>
   (0 \<le> start \<longrightarrow>
      (\<forall>p. start \<le> p \<and> p \<le> start + 49 \<and> p \<le> 65535 \<and> bind_free E p \<longrightarrow>
         (\<exists>q. find_available_port E start = Inr q \<and> start \<le> q \<and> q \<le> p \<and> bind_free E q \<and>
            (\<forall>q'. start \<le> q' \<and> q' < q \<longrightarrow> \<not> bind_free E q')))) \<and>
   (0 \<le> start \<and> start + 49 \<le> 65535 \<longrightarrow>
      ((\<forall>p. start \<le> p \<and> p \<le> start + 49 \<longrightarrow> \<not> bind_free E p) \<longrightarrow>
         find_available_port E start =
           Inl (OSError (''No available port found in range '' @ str_int start @ ''-''
                  @ str_int (start + 49)))))"
proof -
  have a: "bind_free E p \<and> start \<le> p \<and> p \<le> start + 49"
    if "find_available_port E start = Inr p" for p
    using find_available_port_Inr [OF that] by simp
  have b: "\<exists>q. find_available_port E start = Inr q \<and> start \<le> q \<and> q \<le> p \<and> bind_free E q \<and>
      (\<forall>q'. start \<le> q' \<and> q' < q \<longrightarrow> \<not> bind_free E q')"
    if s0: "0 \<le> start" and lo: "start \<le> p" and hi: "p \<le> start + 49" and port: "p \<le> 65535"
      and free: "bind_free E p" for p
  proof -
    from find_available_port_finds [OF s0 lo hi port free]
    obtain q where q: "find_available_port E start = Inr q"
      by blast
    from find_available_port_Inr [OF q] s0
    have f: "start \<le> q" "bind_free E q" "\<And>q'. start \<le> q' \<Longrightarrow> q' < q \<Longrightarrow> \<not> bind_free E q'"
      by auto
    from f(3) [OF lo] free have "q \<le> p" by (cases "p < q") auto
    with q f show ?thesis by blast
  qed
  have c: "find_available_port E start =
      Inl (OSError (''No available port found in range '' @ str_int start @ ''-''
             @ str_int (start + 49)))"
    if "0 \<le> start" "start + 49 \<le> 65535"
      "\<forall>p. start \<le> p \<and> p \<le> start + 49 \<longrightarrow> \<not> bind_free E p"
  proof -
    from that(1,2) have "probe_range_valid start"
      by (simp add: probe_range_valid_def)
    from find_available_port_exhausted [OF this that(3)] show ?thesis .
  qed
  from a b c show ?thesis by blast
qed

theorem find_available_port_lowest_free_witness:
  "bind_free busy_env 8007 \<and> \<not> bind_free busy_env 8000 \<and>
   find_available_port busy_env 8000 = Inr 8003 \<and>
   bind_free edge_env 65530 \<and> \<not> bind_free edge_env 65500 \<and>
   find_available_port edge_env 65500 = Inr 65510 \<and>
   find_available_port demo_env 8000 =
     Inl (OSError ''No available port found in range 8000-8049'')"
proof -
  have f: "bind_free busy_env 8007" "\<not> bind_free busy_env 8000" "bind_free busy_env 8003"
    by (simp_all add: busy_env_fields)
  have r: "(8000::int) \<le> 8007 \<and> (8007::int) \<le> 8000 + 49 \<and> (8007::int) \<le> 65535 \<and>
      bind_free busy_env 8007"
    using f(1) by simp
  have z: "(0::int) \<le> 8000" "(8000::int) + 49 \<le> 65535" "(0::int) \<le> 65500"
    by simp_all
  from find_available_port_lowest_free [of busy_env 8000] z(1)
  have "\<forall>p. 8000 \<le> p \<and> p \<le> 8000 + 49 \<and> p \<le> 65535 \<and> bind_free busy_env p \<longrightarrow>
      (\<exists>q. find_available_port busy_env 8000 = Inr q \<and> 8000 \<le> q \<and> q \<le> p \<and>
         bind_free busy_env q \<and> (\<forall>q'. 8000 \<le> q' \<and> q' < q \<longrightarrow> \<not> bind_free busy_env q'))"
    by blast
  from this [rule_format, OF r]
  obtain q where q: "find_available_port busy_env 8000 = Inr q" "q \<le> 8007"
      "bind_free busy_env q" "\<And>q'. 8000 \<le> q' \<Longrightarrow> q' < q \<Longrightarrow> \<not> bind_free busy_env q'"
    by blast
  from q(3) have "q = 8003 \<or> q = 8007"
    by (simp add: busy_env_fields(1))
  moreover from q(4) [of 8003] f(3) have "\<not> 8003 < q" by auto
  ultimately have "q = 8003" by auto
  with q(1) have busy: "find_available_port busy_env 8000 = Inr 8003" by simp
  have g: "bind_free edge_env 65530" "\<not> bind_free edge_env 65500" "bind_free edge_env 65510"
    by (simp_all add: edge_env_fields)
  have r': "(65500::int) \<le> 65530 \<and> (65530::int) \<le> 65500 + 49 \<and> (65530::int) \<le> 65535 \<and>
      bind_free edge_env 65530"
    using g(1) by simp
  from find_available_port_lowest_free [of edge_env 65500] z(3)
  have "\<forall>p. 65500 \<le> p \<and> p \<le> 65500 + 49 \<and> p \<le> 65535 \<and> bind_free edge_env p \<longrightarrow>
      (\<exists>q. find_available_port edge_env 65500 = Inr q \<and> 65500 \<le> q \<and> q \<le> p \<and>
         bind_free edge_env q \<and> (\<forall>q'. 65500 \<le> q' \<and> q' < q \<longrightarrow> \<not> bind_free edge_env q'))"
    by blast
  from this [rule_format, OF r']
  obtain q2 where q2: "find_available_port edge_env 65500 = Inr q2" "q2 \<le> 65530"
      "bind_free edge_env q2" "\<And>q'. 65500 \<le> q' \<Longrightarrow> q' < q2 \<Longrightarrow> \<not> bind_free edge_env q'"
    by blast
  from q2(3) have "q2 = 65510 \<or> q2 = 65530"
    by (simp add: edge_env_fields)
  moreover from q2(4) [of 65510] g(3) have "\<not> 65510 < q2" by auto
  ultimately have "q2 = 65510" by auto
  with q2(1) have edge: "find_available_port edge_env 65500 = Inr 65510" by simp
  have nb: "\<forall>p. 8000 \<le> p \<and> p \<le> 8000 + 49 \<longrightarrow> \<not> bind_free demo_env p"
    by (simp add: demo_env_fields)
  from find_available_port_lowest_free [of demo_env 8000] z(1,2) nb
  have "find_available_port demo_env 8000 =
      Inl (OSError (''No available port found in range '' @ str_int 8000 @ ''-''
             @ str_int (8000 + 49)))"
    by blast
  then have none: "find_available_port demo_env 8000 =
      Inl (OSError ''No available port found in range 8000-8049'')"
    by (simp add: str_int_8000)
  from f(1,2) busy g(1,2) edge none show ?thesis by blast
qed

text \<open>
  C6, as stated, fails for a start port above 65486 when nothing can be bound: the probe
  of 65536 raises OverflowError, which is not the resource-exhausted OSError.
\<close>

theorem port_overflow_counterexample:
  "\<not> bind_free demo_env 65500 \<and>
   find_available_port demo_env 65500 = Inl (OverflowError ''bind(): port must be 0-65535.'')"
  by code_simp

section \<open>The server manager: launch and liveness\<close>

lemma start_server_alive:
  "thread_running E m \<Longrightarrow> start_server E tid polls m = (Inr (), m, [])"
  by (simp add: start_server_def)

lemma start_server_no_port:
  "\<not> thread_running E m \<Longrightarrow> find_available_port E 8000 = Inl e \<Longrightarrow>
     start_server E tid polls m = (Inl e, m, [])"
  by (simp add: start_server_def)

lemma start_server_port:
  assumes "start_server E tid polls m = (r, m', evs)"
  shows "port m' = port m \<or> (\<exists>p. port m' = Some p \<and> 8000 \<le> p \<and> p \<le> 8049)"
proof (cases "thread_running E m")
  case True
  with assms show ?thesis by (simp add: start_server_def)
next
  case False
  show ?thesis
  proof (cases "find_available_port E 8000")
    case (Inl e)
    with False assms show ?thesis by (simp add: start_server_def)
  next
    case (Inr p)
    from find_available_port_Inr [OF Inr] have "8000 \<le> p" "p \<le> 8049" by simp_all
    with False Inr assms show ?thesis
      by (auto simp: start_server_def split: prod.splits)
  qed
qed

lemma reachable_port:
  "reachable m \<Longrightarrow> port m = Some p \<Longrightarrow> 8000 \<le> p \<and> p \<le> 8049"
proof (induction arbitrary: p rule: reachable.induct)
  case reach_init
  then show ?case by (simp add: init_manager_def)
next
  case (reach_start m E tid polls r m' evs)
  from start_server_port [OF reach_start.hyps(2)] reach_start.IH reach_start.prems
  show ?case by auto
qed

lemma probe_ok_iff: "probe_ok r \<longleftrightarrow> (\<exists>resp. r = Response resp \<and> status_code resp = 200)"
  by (cases r) (simp_all add: probe_ok_def)

lemma health_url_explicit: "health_url p = ''http://localhost:'' @ str_int p @ ''/health''"
  by (simp add: health_url_def)

text \<open>
  C7: \<^verbatim>\<open>is_server_running\<close> returns false without any network call while no port has been
  assigned; otherwise it sends one health GET with a timeout of one second to
  \<^verbatim>\<open>http://localhost:<port>/health\<close>, where the digits are those of the assigned port, and
  returns true exactly when a response with status 200 arrives. The stored
  \<^verbatim>\<open>server_started\<close> flag has no influence on the result.
\<close>

theorem is_server_running_live_check:
  assumes "reachable m"
  shows "(port m = None \<longrightarrow> is_server_running E m = (False, [])) \<and>
    (\<forall>p. port m = Some p \<longrightarrow>
       is_server_running E m =
         (probe_ok (net E (''http://localhost:'' @ str_int p @ ''/health'')),
          [HttpGet (''http://localhost:'' @ str_int p @ ''/health'') (Some 1)]) \<and>
       int (read_decimal (str_int p)) = p \<and>
       (fst (is_server_running E m) \<longleftrightarrow>
          (\<exists>resp. net E (''http://localhost:'' @ str_int p @ ''/health'') = Response resp \<and>
             status_code resp = 200))) \<and>
    (\<forall>b. is_server_running E (m\<lparr>server_started := b\<rparr>) = is_server_running E m)"
proof -
  have a: "is_server_running E m = (False, [])" if "port m = None"
    using that by (simp add: is_server_running_def)
  have b: "is_server_running E m =
      (probe_ok (net E (''http://localhost:'' @ str_int p @ ''/health'')),
       [HttpGet (''http://localhost:'' @ str_int p @ ''/health'') (Some 1)])"
    and d: "int (read_decimal (str_int p)) = p"
    if "port m = Some p" for p
  proof -
    from reachable_port [OF assms that] have p: "p \<noteq> 0" "0 \<le> p" by simp_all
    from p(1) that show "is_server_running E m =
      (probe_ok (net E (''http://localhost:'' @ str_int p @ ''/health'')),
       [HttpGet (''http://localhost:'' @ str_int p @ ''/health'') (Some 1)])"
      by (simp add: is_server_running_def health_url_explicit)
    from p(2) show "int (read_decimal (str_int p)) = p"
      by (rule read_decimal_str_int)
  qed
  have c: "is_server_running E (m\<lparr>server_started := b\<rparr>) = is_server_running E m" for b
    by (simp add: is_server_running_def)
  from a b c d show ?thesis
    by (simp add: probe_ok_iff)
qed

lemma busy_port: "find_available_port busy_env 8000 = Inr 8003"
  by code_simp

lemma busy_start:
  "start_server busy_env 1 [] init_manager = (Inr (), started_manager, [Launch 1 8003])"
  by (simp add: start_server_def thread_running_def init_manager_def started_manager_def
      busy_port)

lemma reachable_started: "reachable started_manager"
  using reach_start [OF reach_init busy_start] .

lemma str_int_8003: "str_int 8003 = ''8003''"
  by (simp add: str_int_def str_nat_small str_nat_step digit_char_def)

theorem is_server_running_live_check_witness:
  "reachable init_manager \<and> port init_manager = None \<and>
   is_server_running busy_env init_manager = (False, []) \<and>
   reachable started_manager \<and> port started_manager = Some 8003 \<and>
   \<not> server_started started_manager \<and>
   is_server_running busy_env started_manager =
     (True, [HttpGet ''http://localhost:8003/health'' (Some 1)]) \<and>
   is_server_running offline_env started_manager =
     (False, [HttpGet ''http://localhost:8003/health'' (Some 1)])"
proof -
  have pi: "port init_manager = None"
    by (simp add: init_manager_def)
  have ps: "port started_manager = Some 8003" "\<not> server_started started_manager"
    by (simp_all add: started_manager_def)
  have h: "probe_ok (net busy_env ''http://localhost:8003/health'')"
    by (simp add: busy_env_fields demo_net_def probe_ok_def json_response_def)
  have a: "is_server_running busy_env init_manager = (False, [])"
    using is_server_running_live_check [OF reach_init, of busy_env] pi by blast
  have b: "is_server_running busy_env started_manager =
      (True, [HttpGet ''http://localhost:8003/health'' (Some 1)])"
    using is_server_running_live_check [OF reachable_started, of busy_env] ps(1) h
    by (simp add: str_int_8003)
  have c: "is_server_running offline_env started_manager =
      (False, [HttpGet ''http://localhost:8003/health'' (Some 1)])"
    using is_server_running_live_check [OF reachable_started, of offline_env] ps(1)
    by (simp add: str_int_8003 probe_ok_def offline_env_def)
  from reach_init pi a reachable_started ps b c show ?thesis by blast
qed

text \<open>
  C8: when the port search of \<^verbatim>\<open>start_server\<close> fails, in particular when none of the
  ports 8000..8049 can be bound, the error leaves \<^verbatim>\<open>start_server\<close> as it is and the
  manager's port, thread and started flag are unchanged; nothing is launched or probed.
\<close>

theorem start_server_propagates_port_exhaustion:
  assumes "\<not> thread_running E m"
  shows "(\<forall>e. find_available_port E 8000 = Inl e \<longrightarrow>
       start_server E tid polls m = (Inl e, m, [])) \<and>
    ((\<forall>p. 8000 \<le> p \<and> p \<le> 8049 \<longrightarrow> \<not> bind_free E p) \<longrightarrow>
       start_server E tid polls m =
         (Inl (OSError ''No available port found in range 8000-8049''), m, []))"
proof -
  have a: "start_server E tid polls m = (Inl e, m, [])"
    if "find_available_port E 8000 = Inl e" for e
    using start_server_no_port [OF assms that] .
  have b: "start_server E tid polls m =
      (Inl (OSError ''No available port found in range 8000-8049''), m, [])"
    if "\<forall>p. 8000 \<le> p \<and> p \<le> 8049 \<longrightarrow> \<not> bind_free E p"
  proof -
    have "probe_range_valid 8000" by (simp add: probe_range_valid_def)
    from find_available_port_exhausted [OF this, of E] that
    have "find_available_port E 8000 =
        Inl (OSError ''No available port found in range 8000-8049'')"
      by (simp add: str_int_8000)
    from start_server_no_port [OF assms this] show ?thesis .
  qed
  from a b show ?thesis by blast
qed

theorem start_server_propagates_port_exhaustion_witness:
  "\<not> thread_running demo_env started_manager \<and>
   start_server demo_env 2 [] started_manager =
     (Inl (OSError ''No available port found in range 8000-8049''), started_manager, [])"
proof -
  have t: "\<not> thread_running demo_env started_manager"
    by (simp add: thread_running_def started_manager_def demo_env_fields)
  from start_server_propagates_port_exhaustion [OF t, of 2 "[]"] t
  show ?thesis by (simp add: demo_env_fields)
qed

text \<open>
  C9: \<^verbatim>\<open>start_server\<close> called while the thread of a previous launch is alive returns at
  once: no port is chosen, nothing is launched or probed, and port, thread and started
  flag of the manager stay as they were.
\<close>

theorem start_server_noop_while_thread_alive:
  assumes "server_thread m = Some t" and "thread_alive E t"
  shows "start_server E tid polls m = (Inr (), m, [])"
  using assms by (simp add: start_server_alive thread_running_def)

theorem start_server_noop_while_thread_alive_witness:
  "server_thread started_manager = Some 1 \<and> thread_alive busy_env 1 \<and>
   bind_free busy_env 8003 \<and>
   start_server busy_env 2 [Response (json_response 200 ''OK'' ''http://localhost:8003/health'' JNull)]
     started_manager = (Inr (), started_manager, [])"
proof -
  have s: "server_thread started_manager = Some 1"
    by (simp add: started_manager_def)
  have a: "thread_alive busy_env 1" "bind_free busy_env 8003"
    by (simp_all add: busy_env_fields)
  from start_server_noop_while_thread_alive [OF s a(1)] s a show ?thesis by blast
qed

end
